theory Spec2Isabelle
  imports Complex_Main
begin

section \<open>Python values and failures\<close>

text \<open>
  The thermocline detectors of \<^verbatim>\<open>seabird/thermocline.py\<close> work on floating point
  temperatures and depths. They are idealised here as real numbers: every property below is
  about the branching, indexing and bookkeeping of the detectors, not about rounding error.
  Every exception the source can raise is a value of \<open>error\<close>, and a function that can raise
  returns \<open>error + 'a\<close> with \<open>Inl\<close> for the exception.
\<close>

datatype error = IndexError | KeyError | ValueError | ZeroDivisionError | EngineError

text \<open>Python sequence indexing \<^verbatim>\<open>xs[i]\<close>: a negative index counts from the end.\<close>

definition list_get :: "'a list \<Rightarrow> int \<Rightarrow> error + 'a" where
  "list_get xs i =
     (if 0 \<le> i \<and> i < int (length xs) then Inr (xs ! nat i)
      else if i < 0 \<and> - int (length xs) \<le> i then Inr (xs ! nat (int (length xs) + i))
      else Inl IndexError)"

text \<open>
  \<^verbatim>\<open>data.Depth[k]\<close> on a pandas column with the default integer labels: a label that
  is not a row raises \<^verbatim>\<open>KeyError\<close>.
\<close>

definition series_get :: "real list \<Rightarrow> nat \<Rightarrow> error + real" where
  "series_get s k = (if k < length s then Inr (s ! k) else Inl KeyError)"

text \<open>\<^verbatim>\<open>data.Depth[idx]\<close> with a list of labels selects these rows, in the order given.\<close>

definition series_take :: "real list \<Rightarrow> nat list \<Rightarrow> error + real list" where
  "series_take s idx =
     (if list_all (\<lambda>k. k < length s) idx then Inr (map (\<lambda>k. s ! k) idx) else Inl KeyError)"

text \<open>\<^verbatim>\<open>np.argmax\<close>: the first position of the greatest entry; an empty sequence is refused.\<close>

definition np_argmax :: "real list \<Rightarrow> error + nat" where
  "np_argmax xs =
     (if xs = [] then Inl ValueError
      else Inr (length (takeWhile (\<lambda>x. x \<noteq> Max (set xs)) xs)))"

text \<open>
  \<^verbatim>\<open>int(np.mean(idx))\<close>: the mean of the indices, truncated towards zero. The mean of
  an empty list is \<^verbatim>\<open>nan\<close>, which \<^verbatim>\<open>int\<close> refuses with \<^verbatim>\<open>ValueError\<close>.
\<close>

definition np_mean :: "nat list \<Rightarrow> real" where
  "np_mean idx = real (sum_list idx) / real (length idx)"

definition py_int :: "real \<Rightarrow> int" where
  "py_int x = (if 0 \<le> x then \<lfloor>x\<rfloor> else \<lceil>x\<rceil>)"

definition int_mean :: "nat list \<Rightarrow> error + nat" where
  "int_mean idx = (if idx = [] then Inl ValueError else Inr (nat (py_int (np_mean idx))))"

section \<open>Configuration, profile and segments\<close>

text \<open>
  The fields of the configuration dictionary that the detectors read:
  \<^verbatim>\<open>config["Preprocessing"]["Interval"]\<close> and the four entries of
  \<^verbatim>\<open>config["Algorithm"]["segment"]\<close>.
\<close>

record config =
  Interval :: real
  max_error :: real
  stable_gradient :: real
  stable_gradient2 :: real
  minTRM_gradient :: real

record profile =
  Depth :: "real list"
  Temperature :: "real list"

text \<open>
  A segment is the two-element list \<^verbatim>\<open>[fitted line, point index]\<close> of the source:
  the values of the fitted line and the profile indices the segment covers.
\<close>

type_synonym segment = "real list \<times> nat list"

section \<open>The segmentation detector\<close>

record thermocline_base =
  LEP :: "real option"
  TRM :: "real option"
  UHY :: "real option"

record thermocline_segmentation = thermocline_base +
  TRM_gradient :: "real option"
  num_segments :: "nat option"
  num_belowTRM :: "nat option"
  TRM_idx :: "nat option"
  model :: "segment list option"
  positiveSeg :: "nat list"
  doubleTRM :: "nat list"
  gradient :: "real list"

text \<open>
  \<^verbatim>\<open>thermocline_segmentation.__init__\<close>. The depth interval of the detector is the
  configured \<open>Interval\<close>, read from the configuration where it is used.
\<close>

definition thermocline_segmentation_init :: thermocline_segmentation where
  "thermocline_segmentation_init =
     \<lparr> LEP = None, TRM = None, UHY = None,
       TRM_gradient = None, num_segments = None, num_belowTRM = None, TRM_idx = None,
       model = None, positiveSeg = [], doubleTRM = [], gradient = [] \<rparr>"

text \<open>
  \<^verbatim>\<open>getGradientFromSegment\<close>: \<^verbatim>\<open>(seg[0][0]-seg[0][1])/self.depthInterval\<close>, the
  difference of the first two entries of the fitted line over the configured interval.
\<close>

definition getGradientFromSegment :: "config \<Rightarrow> segment \<Rightarrow> error + real" where
  "getGradientFromSegment cfg seg =
     (case list_get (fst seg) 0 of Inl e \<Rightarrow> Inl e | Inr a \<Rightarrow>
      case list_get (fst seg) 1 of Inl e \<Rightarrow> Inl e | Inr b \<Rightarrow>
      if Interval cfg = 0 then Inl ZeroDivisionError
      else Inr ((a - b) / Interval cfg))"

text \<open>The list comprehension \<^verbatim>\<open>[self.getGradientFromSegment(seg) for seg in segmentList]\<close>.\<close>

fun gradients :: "config \<Rightarrow> segment list \<Rightarrow> error + real list" where
  "gradients cfg [] = Inr []"
| "gradients cfg (seg # segs) =
     (case getGradientFromSegment cfg seg of Inl e \<Rightarrow> Inl e | Inr g \<Rightarrow>
      case gradients cfg segs of Inl e \<Rightarrow> Inl e | Inr gs \<Rightarrow> Inr (g # gs))"

text \<open>
  \<^verbatim>\<open>detectDoubleTRM\<close>: the loop over \<^verbatim>\<open>range(1,len(segmentList)-1)\<close>, appending to
  the list the detector already holds. The second argument of the loop is the list of
  indices still to visit, the third the value of \<^verbatim>\<open>self.doubleTRM\<close>. Every index
  of that range has both neighbours in the list, so the three reads of the list cannot fail.
\<close>

fun doubleTRM_loop :: "config \<Rightarrow> segment list \<Rightarrow> nat list \<Rightarrow> nat list \<Rightarrow> error + nat list" where
  "doubleTRM_loop cfg segmentList [] acc = Inr acc"
| "doubleTRM_loop cfg segmentList (i # is) acc =
     (case getGradientFromSegment cfg (segmentList ! i) of Inl e \<Rightarrow> Inl e | Inr segGradient \<Rightarrow>
      case getGradientFromSegment cfg (segmentList ! (i - 1)) of Inl e \<Rightarrow> Inl e
      | Inr previousSegGradient \<Rightarrow>
      case getGradientFromSegment cfg (segmentList ! (i + 1)) of Inl e \<Rightarrow> Inl e
      | Inr nextSegGradient \<Rightarrow>
      if \<bar>segGradient\<bar> < stable_gradient cfg
         \<and> previousSegGradient > minTRM_gradient cfg
         \<and> nextSegGradient > stable_gradient cfg
      then doubleTRM_loop cfg segmentList is (acc @ [i])
      else doubleTRM_loop cfg segmentList is acc)"

definition detectDoubleTRM ::
  "config \<Rightarrow> segment list \<Rightarrow> thermocline_segmentation \<Rightarrow> error + thermocline_segmentation" where
  "detectDoubleTRM cfg segmentList self =
     (case doubleTRM_loop cfg segmentList [1 ..< length segmentList - 1] (doubleTRM self) of
        Inl e \<Rightarrow> Inl e
      | Inr d \<Rightarrow> Inr (self\<lparr>doubleTRM := d\<rparr>))"

text \<open>
  \<^verbatim>\<open>detectPositiveGradient\<close>: the list is emptied first, then the loop over
  \<^verbatim>\<open>enumerate(segmentList)\<close> appends. The third argument is the running index.
\<close>

fun positiveSeg_loop :: "config \<Rightarrow> segment list \<Rightarrow> nat \<Rightarrow> nat list \<Rightarrow> error + nat list" where
  "positiveSeg_loop cfg [] i acc = Inr acc"
| "positiveSeg_loop cfg (seg # segs) i acc =
     (case getGradientFromSegment cfg seg of Inl e \<Rightarrow> Inl e | Inr g \<Rightarrow>
      if g < -1 * stable_gradient cfg
      then positiveSeg_loop cfg segs (Suc i) (acc @ [i])
      else positiveSeg_loop cfg segs (Suc i) acc)"

definition detectPositiveGradient ::
  "config \<Rightarrow> segment list \<Rightarrow> thermocline_segmentation \<Rightarrow> error + thermocline_segmentation" where
  "detectPositiveGradient cfg segmentList self =
     (case positiveSeg_loop cfg segmentList 0 [] of
        Inl e \<Rightarrow> Inl e
      | Inr p \<Rightarrow> Inr (self\<lparr>positiveSeg := p\<rparr>))"

text \<open>
  The noise guard of \<^verbatim>\<open>detect\<close> (lines 123 to 139): the gradients, the position of
  the greatest one and, when that is the first segment and the depths of its points span
  less than 2, the removal of the first segment (\<^verbatim>\<open>model.segmentList.pop(0)\<close>) with both
  recomputed. \<^verbatim>\<open>segmentList\<close> and \<^verbatim>\<open>model.segmentList\<close> are one list object in the
  source, so the removal is seen through both names; the result is that list, the gradients
  and the position of the greatest gradient.
\<close>

definition removeNoise ::
  "config \<Rightarrow> real list \<Rightarrow> segment list \<Rightarrow> error + (segment list \<times> real list \<times> nat)" where
  "removeNoise cfg depth segmentList =
     (case gradients cfg segmentList of Inl e \<Rightarrow> Inl e | Inr gradient0 \<Rightarrow>
      case np_argmax gradient0 of Inl e \<Rightarrow> Inl e | Inr maxGradient_index \<Rightarrow>
      if maxGradient_index = 0 then
        (case list_get segmentList 0 of Inl e \<Rightarrow> Inl e | Inr seg0 \<Rightarrow>
         case series_take depth (snd seg0) of Inl e \<Rightarrow> Inl e | Inr tmpDepth \<Rightarrow>
         case list_get tmpDepth (-1) of Inl e \<Rightarrow> Inl e | Inr dlast \<Rightarrow>
         case list_get tmpDepth 0 of Inl e \<Rightarrow> Inl e | Inr dfirst \<Rightarrow>
         if dlast - dfirst < 2 then
           (case gradients cfg (tl segmentList) of Inl e \<Rightarrow> Inl e | Inr gradient1 \<Rightarrow>
            case np_argmax gradient1 of Inl e \<Rightarrow> Inl e
            | Inr k \<Rightarrow> Inr (tl segmentList, gradient1, k))
         else Inr (segmentList, gradient0, maxGradient_index))
      else Inr (segmentList, gradient0, maxGradient_index))"

text \<open>
  The choice of \<^verbatim>\<open>LEP_index\<close> (lines 150 to 162) and of \<^verbatim>\<open>UHY_index\<close>
  (lines 164 to 178), each \<open>None\<close> or an index of the profile.
\<close>

definition find_LEP_index :: "config \<Rightarrow> segment list \<Rightarrow> real list \<Rightarrow> nat \<Rightarrow> error + nat option" where
  "find_LEP_index cfg segmentList gs maxGradient_index =
     (case list_get segmentList 0 of Inl e \<Rightarrow> Inl e | Inr epilimnion_seg \<Rightarrow>
      case list_get (snd epilimnion_seg) (-1) of Inl e \<Rightarrow> Inl e | Inr LEP_index \<Rightarrow>
      if maxGradient_index = 0 then Inr None
      else
        (case list_get gs 1 of Inl e \<Rightarrow> Inl e | Inr g1 \<Rightarrow>
         if \<bar>g1\<bar> < stable_gradient cfg then
           (case list_get segmentList 1 of Inl e \<Rightarrow> Inl e | Inr seg1 \<Rightarrow>
            case list_get (snd seg1) (-1) of Inl e \<Rightarrow> Inl e | Inr k \<Rightarrow> Inr (Some k))
         else
           (case list_get gs 0 of Inl e \<Rightarrow> Inl e | Inr g0 \<Rightarrow>
            if \<bar>g0\<bar> > stable_gradient2 cfg then Inr None else Inr (Some LEP_index))))"

definition find_UHY_index :: "config \<Rightarrow> segment list \<Rightarrow> real list \<Rightarrow> nat \<Rightarrow> error + nat option" where
  "find_UHY_index cfg segmentList gs maxGradient_index =
     (case list_get segmentList (-1) of Inl e \<Rightarrow> Inl e | Inr hypolimnion_seg \<Rightarrow>
      case list_get (snd hypolimnion_seg) 0 of Inl e \<Rightarrow> Inl e | Inr UHY_index \<Rightarrow>
      if int maxGradient_index = int (length gs) - 1 then Inr None
      else
        (case list_get gs (-2) of Inl e \<Rightarrow> Inl e | Inr g2 \<Rightarrow>
         if \<bar>g2\<bar> < stable_gradient cfg then
           (case list_get segmentList (-2) of Inl e \<Rightarrow> Inl e | Inr seg2 \<Rightarrow>
            case list_get (snd seg2) 0 of Inl e \<Rightarrow> Inl e | Inr k \<Rightarrow> Inr (Some k))
         else
           (case list_get gs (-1) of Inl e \<Rightarrow> Inl e | Inr glast \<Rightarrow>
            if \<bar>glast\<bar> > stable_gradient2 cfg then Inr None else Inr (Some UHY_index))))"

text \<open>
  The branch of \<^verbatim>\<open>detect\<close> on the gate (lines 144 to 187). Above the gate the three
  depths are looked up; an attribute whose index is \<open>None\<close> is not assigned and keeps the
  value the detector had. At or below the gate nothing is assigned.
\<close>

definition locate ::
  "config \<Rightarrow> real list \<Rightarrow> segment list \<Rightarrow> real list \<Rightarrow> nat \<Rightarrow> thermocline_segmentation
     \<Rightarrow> error + thermocline_segmentation" where
  "locate cfg depth segmentList gs maxGradient_index self =
     (case list_get gs (int maxGradient_index) of Inl e \<Rightarrow> Inl e | Inr gmax \<Rightarrow>
      if gmax > minTRM_gradient cfg then
        (case list_get segmentList (int maxGradient_index) of Inl e \<Rightarrow> Inl e | Inr seg \<Rightarrow>
         case int_mean (snd seg) of Inl e \<Rightarrow> Inl e | Inr mid \<Rightarrow>
         case series_get depth mid of Inl e \<Rightarrow> Inl e | Inr trm \<Rightarrow>
         case find_LEP_index cfg segmentList gs maxGradient_index of Inl e \<Rightarrow> Inl e
         | Inr LEP_index \<Rightarrow>
         case find_UHY_index cfg segmentList gs maxGradient_index of Inl e \<Rightarrow> Inl e
         | Inr UHY_index \<Rightarrow>
         case (case LEP_index of None \<Rightarrow> Inr (LEP self)
               | Some k \<Rightarrow> map_sum id Some (series_get depth k)) of Inl e \<Rightarrow> Inl e
         | Inr lep \<Rightarrow>
         case (case UHY_index of None \<Rightarrow> Inr (UHY self)
               | Some k \<Rightarrow> map_sum id Some (series_get depth k)) of Inl e \<Rightarrow> Inl e
         | Inr uhy \<Rightarrow>
         Inr (self\<lparr>TRM := Some trm, LEP := lep, UHY := uhy\<rparr>))
      else Inr self)"

text \<open>
  \<^verbatim>\<open>thermocline_segmentation.detect\<close>. The fitting engine \<^verbatim>\<open>bottomUp\<close> is not part of
  the detector: it is the parameter \<open>fit_predict\<close>, from the configured \<open>max_error\<close> and the
  temperatures to the segment list or a failure. \<^verbatim>\<open>data.Depth[1]-data.Depth[0]\<close> is
  evaluated (and its value never used). The retained model is represented by its segment
  list. Printing is left out.
\<close>

definition detect ::
  "(real \<Rightarrow> real list \<Rightarrow> error + segment list) \<Rightarrow> config \<Rightarrow> thermocline_segmentation
     \<Rightarrow> profile \<Rightarrow> bool \<Rightarrow> error + thermocline_segmentation" where
  "detect fit_predict cfg self data saveModel =
     (case fit_predict (max_error cfg) (Temperature data) of Inl e \<Rightarrow> Inl e | Inr segs0 \<Rightarrow>
      case series_get (Depth data) 1 of Inl e \<Rightarrow> Inl e | Inr d1 \<Rightarrow>
      case series_get (Depth data) 0 of Inl e \<Rightarrow> Inl e | Inr d0 \<Rightarrow>
      case removeNoise cfg (Depth data) segs0 of Inl e \<Rightarrow> Inl e
      | Inr (segmentList, gs, maxGradient_index) \<Rightarrow>
      case locate cfg (Depth data) segmentList gs maxGradient_index (self\<lparr>gradient := gs\<rparr>) of
        Inl e \<Rightarrow> Inl e
      | Inr self1 \<Rightarrow>
      case detectDoubleTRM cfg segmentList
             (self1\<lparr>TRM_gradient := Some (Max (set gs)),
                    num_segments := Some (length segmentList),
                    TRM_idx := Some maxGradient_index\<rparr>) of Inl e \<Rightarrow> Inl e
      | Inr self2 \<Rightarrow>
      case detectPositiveGradient cfg segmentList self2 of Inl e \<Rightarrow> Inl e
      | Inr self3 \<Rightarrow>
      Inr (if saveModel then self3\<lparr>model := Some segmentList\<rparr> else self3))"

section \<open>The HMM and threshold detectors\<close>

text \<open>
  The signal features, the hidden Markov model and the threshold model are not part of
  \<^verbatim>\<open>thermocline.py\<close>; they are parameters of the model, each able to fail. The signal
  features carry a depth column and a power column, and each model answers with a sequence
  of row labels.
\<close>

record signal_data =
  sDepth :: "real list"
  Power :: "real list"

record engines =
  bottomUp_fit_predict :: "real \<Rightarrow> real list \<Rightarrow> error + segment list"
  extractSignalFeatures :: "profile \<Rightarrow> error + signal_data"
  hmmModel_fit_predict :: "signal_data \<Rightarrow> error + int list"
  thresholdModel_fit_predict :: "real list \<Rightarrow> error + int list"

definition thermocline_base_init :: thermocline_base where
  "thermocline_base_init = \<lparr> LEP = None, TRM = None, UHY = None \<rparr>"

text \<open>\<^verbatim>\<open>signal_data.Depth[res[j]]\<close>: the entry of the answer, then the row with that label.\<close>

definition depth_of_result :: "real list \<Rightarrow> int list \<Rightarrow> int \<Rightarrow> error + real" where
  "depth_of_result d res j =
     (case list_get res j of Inl e \<Rightarrow> Inl e
      | Inr k \<Rightarrow> if 0 \<le> k \<and> k < int (length d) then Inr (d ! nat k) else Inl KeyError)"

definition assign_depths :: "real list \<Rightarrow> int list \<Rightarrow> thermocline_base \<Rightarrow> error + thermocline_base" where
  "assign_depths d res self =
     (case depth_of_result d res 0 of Inl e \<Rightarrow> Inl e | Inr trm \<Rightarrow>
      case depth_of_result d res 1 of Inl e \<Rightarrow> Inl e | Inr lep \<Rightarrow>
      case depth_of_result d res 2 of Inl e \<Rightarrow> Inl e | Inr uhy \<Rightarrow>
      Inr (self\<lparr>TRM := Some trm, LEP := Some lep, UHY := Some uhy\<rparr>))"

definition thermocline_HMM_detect :: "engines \<Rightarrow> thermocline_base \<Rightarrow> profile \<Rightarrow> error + thermocline_base" where
  "thermocline_HMM_detect eng self data =
     (case extractSignalFeatures eng data of Inl e \<Rightarrow> Inl e | Inr sd \<Rightarrow>
      case hmmModel_fit_predict eng sd of Inl e \<Rightarrow> Inl e | Inr res \<Rightarrow>
      assign_depths (sDepth sd) res self)"

definition thermocline_threshold_detect ::
  "engines \<Rightarrow> thermocline_base \<Rightarrow> profile \<Rightarrow> error + thermocline_base" where
  "thermocline_threshold_detect eng self data =
     (case extractSignalFeatures eng data of Inl e \<Rightarrow> Inl e | Inr sd \<Rightarrow>
      case thresholdModel_fit_predict eng (Power sd) of Inl e \<Rightarrow> Inl e | Inr res \<Rightarrow>
      assign_depths (sDepth sd) res self)"

section \<open>The ensemble\<close>

text \<open>
  The feature dictionary maps a key to \<^verbatim>\<open>None\<close>, a float or an integer. A key that was
  never assigned is not in the dictionary, which is another thing than a key that holds
  \<^verbatim>\<open>None\<close>.
\<close>

datatype pyval = PyNone | PyFloat real | PyInt int

type_synonym features = "string \<rightharpoonup> pyval"

definition float_or_None :: "real option \<Rightarrow> pyval" where
  "float_or_None v = (case v of None \<Rightarrow> PyNone | Some x \<Rightarrow> PyFloat x)"

definition int_or_None :: "nat option \<Rightarrow> pyval" where
  "int_or_None v = (case v of None \<Rightarrow> PyNone | Some n \<Rightarrow> PyInt (int n))"

text \<open>The initialisation of \<^verbatim>\<open>thermocline.detect\<close> (lines 239 to 245).\<close>

definition init_features :: features where
  "init_features =
     (fold (\<lambda>d f. fold (\<lambda>m g. g(d @ ''_'' @ m \<mapsto> PyNone)) [''segment'', ''HMM'', ''threshold''] f)
           [''TRM'', ''LEP'', ''UHY''] Map.empty)
       (''TRM_gradient_segment'' \<mapsto> PyNone, ''TRM_num_segment'' \<mapsto> PyNone)"

text \<open>
  The three guarded blocks. Each returns the exception its \<^verbatim>\<open>except Exception\<close> clause
  caught and printed (\<open>None\<close> when the block ran to its end) and the dictionary as the
  block left it. In the segmentation block the assignments stand in the guarded block after
  the call of the detector, so an exception of a later statement leaves the earlier
  assignments in place.
\<close>

definition run_segmentation ::
  "engines \<Rightarrow> config \<Rightarrow> profile \<Rightarrow> bool \<Rightarrow> features \<Rightarrow> (string \<rightharpoonup> segment list option)
     \<Rightarrow> error option \<times> features \<times> (string \<rightharpoonup> segment list option)" where
  "run_segmentation eng cfg data saveModel feats models =
     (case detect (bottomUp_fit_predict eng) cfg thermocline_segmentation_init data saveModel of
        Inl e \<Rightarrow> (Some e, feats, models)
      | Inr m \<Rightarrow>
          (let f1 = feats(''TRM_gradient_segment'' \<mapsto> float_or_None (TRM_gradient m),
                          ''TRM_segment'' \<mapsto> float_or_None (TRM m),
                          ''LEP_segment'' \<mapsto> float_or_None (LEP m),
                          ''UHY_segment'' \<mapsto> float_or_None (UHY m),
                          ''TRM_num_segment'' \<mapsto> int_or_None (num_segments m),
                          ''TRM_idx'' \<mapsto> int_or_None (TRM_idx m),
                          ''doubleTRM'' \<mapsto> PyInt (int (length (doubleTRM m))),
                          ''positiveGradient'' \<mapsto> PyInt (int (length (positiveSeg m))))
           in case list_get (gradient m) 0 of Inl e \<Rightarrow> (Some e, f1, models) | Inr g0 \<Rightarrow>
              (let f2 = f1(''firstSegmentGradient'' \<mapsto> PyFloat g0)
               in case list_get (gradient m) (-1) of Inl e \<Rightarrow> (Some e, f2, models) | Inr gl \<Rightarrow>
                  (let f3 = f2(''lastSegmentGradient'' \<mapsto> PyFloat gl)
                   in case list_get (gradient m) (-2) of Inl e \<Rightarrow> (Some e, f3, models)
                      | Inr g2 \<Rightarrow>
                          (None, f3(''lastButTwoSegmentGradient'' \<mapsto> PyFloat g2),
                           if saveModel then models(''segmentation'' \<mapsto> model m) else models)))))"

definition run_HMM :: "engines \<Rightarrow> profile \<Rightarrow> features \<Rightarrow> error option \<times> features" where
  "run_HMM eng data feats =
     (case thermocline_HMM_detect eng thermocline_base_init data of
        Inl e \<Rightarrow> (Some e, feats)
      | Inr m \<Rightarrow>
          (None, feats(''TRM_HMM'' \<mapsto> float_or_None (TRM m),
                       ''LEP_HMM'' \<mapsto> float_or_None (LEP m),
                       ''UHY_HMM'' \<mapsto> float_or_None (UHY m))))"

definition run_threshold :: "engines \<Rightarrow> profile \<Rightarrow> features \<Rightarrow> error option \<times> features" where
  "run_threshold eng data feats =
     (case thermocline_threshold_detect eng thermocline_base_init data of
        Inl e \<Rightarrow> (Some e, feats)
      | Inr m \<Rightarrow>
          (None, feats(''TRM_threshold'' \<mapsto> float_or_None (TRM m),
                       ''LEP_threshold'' \<mapsto> float_or_None (LEP m),
                       ''UHY_threshold'' \<mapsto> float_or_None (UHY m))))"

text \<open>
  \<^verbatim>\<open>thermocline.detect\<close>: the dictionary it returns and the \<^verbatim>\<open>models\<close> attribute of
  the ensemble afterwards.
\<close>

definition thermocline_detect ::
  "engines \<Rightarrow> config \<Rightarrow> (string \<rightharpoonup> segment list option) \<Rightarrow> profile \<Rightarrow> string list \<Rightarrow> bool
     \<Rightarrow> features \<times> (string \<rightharpoonup> segment list option)" where
  "thermocline_detect eng cfg models data methods saveModel =
     (let (f1, models1) =
            (if ''segmentation'' \<in> set methods
             then snd (run_segmentation eng cfg data saveModel init_features models)
             else (init_features, models));
          f2 = (if ''HMM'' \<in> set methods then snd (run_HMM eng data f1) else f1);
          f3 = (if ''threshold'' \<in> set methods then snd (run_threshold eng data f2) else f2)
      in (f3, models1))"

section \<open>The anomaly patterns, as the specification words them\<close>

text \<open>
  The double-thermocline pattern at an interior position \<open>i\<close> of a gradient list, and the
  positive-gradient pattern at a position \<open>i\<close>. The detectors are compared with these below.
\<close>

definition double_flag :: "config \<Rightarrow> real list \<Rightarrow> nat \<Rightarrow> bool" where
  "double_flag cfg gs i \<longleftrightarrow>
     \<bar>gs ! i\<bar> < stable_gradient cfg \<and> gs ! (i - 1) > minTRM_gradient cfg
     \<and> gs ! (i + 1) > stable_gradient cfg"

definition positive_flag :: "config \<Rightarrow> real list \<Rightarrow> nat \<Rightarrow> bool" where
  "positive_flag cfg gs i \<longleftrightarrow> gs ! i < - stable_gradient cfg"

text \<open>The segment list that the noise guard of \<^verbatim>\<open>detect\<close> leaves.\<close>

definition guard_segments :: "config \<Rightarrow> real list \<Rightarrow> segment list \<Rightarrow> error + segment list" where
  "guard_segments cfg depth segmentList = map_sum id fst (removeNoise cfg depth segmentList)"

section \<open>Example inputs\<close>

text \<open>
  The thresholds of the worked example of the specification: interval 1,
  \<open>minTRM_gradient = 2\<close>, \<open>stable_gradient = 0.5\<close>, \<open>stable_gradient2 = 1.5\<close>.
\<close>

definition cfgA :: config where
  "cfgA = \<lparr> Interval = 1, max_error = 3 / 10, stable_gradient = 1 / 2,
            stable_gradient2 = 3 / 2, minTRM_gradient = 2 \<rparr>"

text \<open>
  Three segments with gradients 3, 0 and 3: a flat segment between two steep ones.
\<close>

definition segsC :: "segment list" where
  "segsC = [([20, 17], [0, 1]), ([17, 17], [2, 3]), ([17, 14], [4, 5])]"

text \<open>A fitting engine that answers with a given segment list.\<close>

definition engine_returning :: "segment list \<Rightarrow> real \<Rightarrow> real list \<Rightarrow> error + segment list" where
  "engine_returning segs e temperature = Inr segs"

text \<open>
  The worked example of the specification: depths 0 to 10, 20 degrees down to depth 4, a
  linear fall to 10 degrees at depth 6, 10 degrees below; the fit has three segments.
\<close>

definition dataA :: profile where
  "dataA = \<lparr> Depth = [0, 1, 2, 3, 4, 5, 6, 7, 8, 9, 10],
             Temperature = [20, 20, 20, 20, 20, 15, 10, 10, 10, 10, 10] \<rparr>"

definition segsA :: "segment list" where
  "segsA = [([20, 20, 20, 20], [0, 1, 2, 3]), ([20, 15, 10], [4, 5, 6]),
            ([10, 10, 10, 10], [7, 8, 9, 10])]"

text \<open>A flat profile of six samples, fitted by two flat segments.\<close>

definition dataB :: profile where
  "dataB = \<lparr> Depth = [0, 1, 2, 3, 4, 5], Temperature = [10, 10, 10, 10, 10, 10] \<rparr>"

definition segsB :: "segment list" where
  "segsB = [([10, 10, 10], [0, 1, 2]), ([10, 10, 10], [3, 4, 5])]"

text \<open>A profile whose steepest segment covers the two indices 3 and 4.\<close>

definition dataD :: profile where
  "dataD = \<lparr> Depth = [0, 1, 2, 3, 4, 5, 6, 7],
             Temperature = [20, 20, 20, 20, 14, 14, 14, 14] \<rparr>"

definition segsD :: "segment list" where
  "segsD = [([20, 20, 20], [0, 1, 2]), ([20, 14], [3, 4]), ([14, 14, 14], [5, 6, 7])]"

text \<open>
  Four segments with gradients 3, 0, 3 and -1 over nine samples: a flat segment between
  two steep ones, and a last segment in which the temperature rises.
\<close>

definition dataE :: profile where
  "dataE = \<lparr> Depth = [0, 1, 2, 3, 4, 5, 6, 7, 8],
             Temperature = [20, 17, 14, 14, 14, 14, 11, 11, 12] \<rparr>"

definition segsE :: "segment list" where
  "segsE = [([20, 17, 14], [0, 1, 2]), ([14, 14], [3, 4]), ([14, 11], [5, 6]),
            ([11, 12], [7, 8])]"

text \<open>
  Two short steep segments before a long flat one: the first has the greatest gradient,
  and after its removal the second has.
\<close>

definition dataF :: profile where
  "dataF = \<lparr> Depth = [0, 1, 2, 3, 4, 5, 6, 7],
             Temperature = [20, 15, 15, 11, 11, 11, 11, 11] \<rparr>"

definition segsF :: "segment list" where
  "segsF = [([20, 15], [0, 1]), ([15, 11], [2, 3]), ([11, 11, 11, 11], [4, 5, 6, 7])]"

text \<open>
  Engines of which only the fitting engine answers, with a given segment list; the signal
  features and both statistical models fail.
\<close>

definition engines_of :: "segment list \<Rightarrow> engines" where
  "engines_of segs =
     \<lparr> bottomUp_fit_predict = engine_returning segs,
       extractSignalFeatures = (\<lambda>data. Inl EngineError),
       hmmModel_fit_predict = (\<lambda>sd. Inl EngineError),
       thresholdModel_fit_predict = (\<lambda>power. Inl EngineError) \<rparr>"

text \<open>A profile of two samples, fitted by one segment whose depths span 1.\<close>

definition dataG :: profile where
  "dataG = \<lparr> Depth = [0, 1], Temperature = [20, 14] \<rparr>"

definition segsG :: "segment list" where
  "segsG = [([20, 14], [0, 1])]"

text \<open>A profile of three samples, fitted by one segment whose depths span 2.\<close>

definition dataH :: profile where
  "dataH = \<lparr> Depth = [0, 1, 2], Temperature = [20, 14, 8] \<rparr>"

definition segsH :: "segment list" where
  "segsH = [([20, 14, 8], [0, 1, 2])]"

section \<open>Indexing lemmas\<close>

lemma list_get_0: "xs \<noteq> [] \<Longrightarrow> list_get xs 0 = Inr (hd xs)"
  by (cases xs) (simp_all add: list_get_def)

lemma list_get_1: "2 \<le> length xs \<Longrightarrow> list_get xs 1 = Inr (xs ! 1)"
  by (simp add: list_get_def)

lemma list_get_m1: "xs \<noteq> [] \<Longrightarrow> list_get xs (-1) = Inr (last xs)"
  by (cases xs) (simp_all add: list_get_def last_conv_nth nat_diff_distrib)

lemma list_get_m2: "2 \<le> length xs \<Longrightarrow> list_get xs (-2) = Inr (xs ! (length xs - 2))"
  by (simp add: list_get_def nat_diff_distrib)

lemma list_get_nat: "k < length xs \<Longrightarrow> list_get xs (int k) = Inr (xs ! k)"
  by (simp add: list_get_def)

lemma list_get_Nil: "list_get [] i = Inl IndexError"
  by (simp add: list_get_def)

section \<open>The gradient of a segment\<close>

text \<open>
  C1 (as the code has it). The gradient of a segment is the difference of the first two
  entries of its fitted line, divided by the configured interval: it fails with
  \<open>IndexError\<close> on a fitted line of fewer than two entries and with \<open>ZeroDivisionError\<close>
  on a zero interval. With a positive interval it is positive exactly when the second entry
  of the fitted line is below the first. On a fitted line of exactly two entries these are
  its first and its last entry.
\<close>

theorem getGradientFromSegment_first_two:
  "getGradientFromSegment cfg (line, idx) =
     (if length line < 2 then Inl IndexError
      else if Interval cfg = 0 then Inl ZeroDivisionError
      else Inr ((line ! 0 - line ! 1) / Interval cfg))
   \<and> (0 < Interval cfg \<longrightarrow> (0 < (line ! 0 - line ! 1) / Interval cfg \<longleftrightarrow> line ! 1 < line ! 0))
   \<and> (length line = 2 \<longrightarrow> line ! 0 = hd line \<and> line ! 1 = last line)"
proof (intro conjI impI)
  show "getGradientFromSegment cfg (line, idx) =
     (if length line < 2 then Inl IndexError
      else if Interval cfg = 0 then Inl ZeroDivisionError
      else Inr ((line ! 0 - line ! 1) / Interval cfg))"
    by (cases line) (auto simp: getGradientFromSegment_def list_get_def)
next
  assume "0 < Interval cfg"
  then show "0 < (line ! 0 - line ! 1) / Interval cfg \<longleftrightarrow> line ! 1 < line ! 0"
    by (simp add: zero_less_divide_iff)
next
  assume "length line = 2"
  then show "line ! 0 = hd line"
    by (cases line) simp_all
next
  assume len: "length line = 2"
  then have "line \<noteq> []" by auto
  with len show "line ! 1 = last line"
    by (simp add: last_conv_nth)
qed

theorem getGradientFromSegment_first_two_witness:
  "getGradientFromSegment cfgA ([20, 14], [3, 4]) = Inr 6
   \<and> (0::real) < 6 \<and> last [20, 14 :: real] < hd [20, 14]"
  using getGradientFromSegment_first_two [of cfgA "[20, 14]" "[3, 4]"]
  by (simp add: cfgA_def)

text \<open>
  C1 (as stated) fails on a fitted line of three points: over the indices 4 to 6 the line
  falls from 20 to 10, so the stated gradient is 10, and the code returns 5.
\<close>

theorem getGradientFromSegment_start_end_counterexample:
  "getGradientFromSegment cfgA ([20, 15, 10], [4, 5, 6]) = Inr 5
   \<and> (hd [20, 15, 10 :: real] - last [20, 15, 10]) / Interval cfgA = 10"
  by (simp add: getGradientFromSegment_def list_get_def cfgA_def)

section \<open>The anomaly detectors\<close>

lemma positive_flag_0: "positive_flag cfg (g # gs) 0 \<longleftrightarrow> g < - stable_gradient cfg"
  by (simp add: positive_flag_def)

lemma positive_flag_Suc: "positive_flag cfg (g # gs) (Suc k) = positive_flag cfg gs k"
  by (simp add: positive_flag_def)

lemma gradients_length: "gradients cfg segs = Inr gs \<Longrightarrow> length gs = length segs"
  by (induction segs arbitrary: gs) (auto split: sum.splits)

lemma gradients_nth:
  "gradients cfg segs = Inr gs \<Longrightarrow> i < length segs
     \<Longrightarrow> getGradientFromSegment cfg (segs ! i) = Inr (gs ! i)"
proof (induction segs arbitrary: gs i)
  case Nil
  then show ?case by simp
next
  case (Cons seg segs)
  then show ?case
    by (cases i) (auto split: sum.splits)
qed

lemma gradients_tl: "gradients cfg segs = Inr gs \<Longrightarrow> gradients cfg (tl segs) = Inr (tl gs)"
  by (cases segs) (auto split: sum.splits)

lemma doubleTRM_loop_filter:
  assumes "gradients cfg segs = Inr gs"
    and "\<forall>i \<in> set js. 0 < i \<and> i + 1 < length segs"
  shows "doubleTRM_loop cfg segs js acc = Inr (acc @ filter (double_flag cfg gs) js)"
  using assms(2)
proof (induction js arbitrary: acc)
  case Nil
  then show ?case by simp
next
  case (Cons j js)
  from Cons.prems have j: "j < length segs" "j - 1 < length segs" "j + 1 < length segs"
    by auto
  have g: "getGradientFromSegment cfg (segs ! j) = Inr (gs ! j)"
    "getGradientFromSegment cfg (segs ! (j - 1)) = Inr (gs ! (j - 1))"
    "getGradientFromSegment cfg (segs ! (j + 1)) = Inr (gs ! (j + 1))"
    using gradients_nth [OF assms(1)] j by blast+
  from Cons.prems have rest: "\<forall>i \<in> set js. 0 < i \<and> i + 1 < length segs"
    by simp
  show ?case
    using Cons.IH [OF rest] g by (simp add: double_flag_def)
qed

lemma detectDoubleTRM_append:
  assumes "gradients cfg segs = Inr gs"
  shows "detectDoubleTRM cfg segs self =
     Inr (self\<lparr>doubleTRM := doubleTRM self @ filter (double_flag cfg gs) [1 ..< length gs - 1]\<rparr>)"
proof -
  have "\<forall>i \<in> set [1 ..< length segs - 1]. 0 < i \<and> i + 1 < length segs"
    by auto
  from doubleTRM_loop_filter [OF assms this]
  show ?thesis
    by (simp add: detectDoubleTRM_def gradients_length [OF assms])
qed

lemma positiveSeg_loop_filter:
  "gradients cfg segs = Inr gs \<Longrightarrow>
   positiveSeg_loop cfg segs i acc =
     Inr (acc @ map (\<lambda>k. k + i) (filter (positive_flag cfg gs) [0 ..< length gs]))"
proof (induction segs arbitrary: gs i acc)
  case Nil
  then show ?case by simp
next
  case (Cons seg segs)
  from Cons.prems obtain g gs' where g: "getGradientFromSegment cfg seg = Inr g"
    and gs': "gradients cfg segs = Inr gs'" and gs: "gs = g # gs'"
    by (auto split: sum.splits)
  have "[0 ..< Suc (length gs')] = 0 # map Suc [0 ..< length gs']"
    by (simp add: upt_conv_Cons map_Suc_upt del: upt_Suc)
  then have shift: "filter (positive_flag cfg (g # gs')) [0 ..< Suc (length gs')] =
      (if g < - stable_gradient cfg then [0] else [])
      @ map Suc (filter (positive_flag cfg gs') [0 ..< length gs'])"
    by (simp add: filter_map comp_def positive_flag_Suc positive_flag_0 del: upt_Suc)
  show ?case
    using Cons.IH [OF gs', of "Suc i"] g
    by (simp add: gs shift comp_def del: upt_Suc)
qed

lemma detectPositiveGradient_filter:
  assumes "gradients cfg segs = Inr gs"
  shows "detectPositiveGradient cfg segs self =
     Inr (self\<lparr>positiveSeg := filter (positive_flag cfg gs) [0 ..< length gs]\<rparr>)"
  using positiveSeg_loop_filter [OF assms, of 0 "[]"]
  by (simp add: detectPositiveGradient_def)

lemma length_filter_upt_card:
  "length (filter P [a ..< b]) = card {i. a \<le> i \<and> i < b \<and> P i}"
proof -
  have "distinct (filter P [a ..< b])"
    by simp
  from distinct_card [OF this]
  have "length (filter P [a ..< b]) = card (set (filter P [a ..< b]))"
    by simp
  moreover have "set (filter P [a ..< b]) = {i. a \<le> i \<and> i < b \<and> P i}"
    by auto
  ultimately show ?thesis
    by simp
qed

lemma count_list_distinct: "distinct xs \<Longrightarrow> x \<in> set xs \<Longrightarrow> count_list xs x = 1"
  by (induction xs) auto

lemma gradients_segsC: "gradients cfgA segsC = Inr [3, 0, 3]"
  by (simp add: segsC_def cfgA_def getGradientFromSegment_def list_get_def)

lemma double_flag_segsC: "filter (double_flag cfgA [3, 0, 3]) [1 ..< length [3, 0, 3 :: real] - 1] = [1]"
  by (simp add: double_flag_def cfgA_def upt_conv_Cons)

text \<open>
  C10. Whatever the detector held before, \<^verbatim>\<open>detectPositiveGradient\<close> leaves in
  \<open>positiveSeg\<close> exactly the flagged positions of the given segment list.
  \<^verbatim>\<open>detectDoubleTRM\<close> appends the flagged interior positions to what \<open>doubleTRM\<close>
  held: after two calls they stand there twice, and only on a freshly constructed detector
  the first call leaves exactly the flagged positions, each of which is then counted twice
  after the second call.
\<close>

theorem detectDoubleTRM_accumulates:
  assumes "gradients cfg segs = Inr gs"
  shows "detectPositiveGradient cfg segs self =
           Inr (self\<lparr>positiveSeg := filter (positive_flag cfg gs) [0 ..< length gs]\<rparr>)
    \<and> (\<exists>s1 s2. detectDoubleTRM cfg segs self = Inr s1 \<and> detectDoubleTRM cfg segs s1 = Inr s2
          \<and> doubleTRM s1 = doubleTRM self @ filter (double_flag cfg gs) [1 ..< length gs - 1]
          \<and> doubleTRM s2 = doubleTRM self @ filter (double_flag cfg gs) [1 ..< length gs - 1]
                              @ filter (double_flag cfg gs) [1 ..< length gs - 1])
    \<and> (\<exists>s1 s2. detectDoubleTRM cfg segs thermocline_segmentation_init = Inr s1
          \<and> detectDoubleTRM cfg segs s1 = Inr s2
          \<and> doubleTRM s1 = filter (double_flag cfg gs) [1 ..< length gs - 1]
          \<and> (\<forall>i \<in> set (doubleTRM s1). count_list (doubleTRM s2) i = 2))"
proof (intro conjI)
  show "detectPositiveGradient cfg segs self =
           Inr (self\<lparr>positiveSeg := filter (positive_flag cfg gs) [0 ..< length gs]\<rparr>)"
    by (rule detectPositiveGradient_filter [OF assms])
next
  show "\<exists>s1 s2. detectDoubleTRM cfg segs self = Inr s1 \<and> detectDoubleTRM cfg segs s1 = Inr s2
          \<and> doubleTRM s1 = doubleTRM self @ filter (double_flag cfg gs) [1 ..< length gs - 1]
          \<and> doubleTRM s2 = doubleTRM self @ filter (double_flag cfg gs) [1 ..< length gs - 1]
                              @ filter (double_flag cfg gs) [1 ..< length gs - 1]"
    by (simp add: detectDoubleTRM_append [OF assms])
next
  let ?F = "filter (double_flag cfg gs) [1 ..< length gs - 1]"
  have "distinct ?F" by simp
  then have "\<forall>i \<in> set ?F. count_list (?F @ ?F) i = 2"
    by (simp add: count_list_distinct)
  then show "\<exists>s1 s2. detectDoubleTRM cfg segs thermocline_segmentation_init = Inr s1
          \<and> detectDoubleTRM cfg segs s1 = Inr s2
          \<and> doubleTRM s1 = filter (double_flag cfg gs) [1 ..< length gs - 1]
          \<and> (\<forall>i \<in> set (doubleTRM s1). count_list (doubleTRM s2) i = 2)"
    by (simp add: detectDoubleTRM_append [OF assms] thermocline_segmentation_init_def)
qed

theorem detectDoubleTRM_accumulates_witness:
  "gradients cfgA segsC = Inr [3, 0, 3]
   \<and> (\<exists>s1 s2. detectDoubleTRM cfgA segsC thermocline_segmentation_init = Inr s1
         \<and> detectDoubleTRM cfgA segsC s1 = Inr s2
         \<and> doubleTRM s1 = [1] \<and> doubleTRM s2 = [1, 1])"
proof -
  from detectDoubleTRM_accumulates [OF gradients_segsC, of thermocline_segmentation_init]
  obtain s1 s2 where
    a: "detectDoubleTRM cfgA segsC thermocline_segmentation_init = Inr s1"
      "detectDoubleTRM cfgA segsC s1 = Inr s2"
    and b: "doubleTRM s1 = doubleTRM thermocline_segmentation_init
              @ filter (double_flag cfgA [3, 0, 3]) [1 ..< length [3, 0, 3 :: real] - 1]"
      "doubleTRM s2 = doubleTRM thermocline_segmentation_init
              @ filter (double_flag cfgA [3, 0, 3]) [1 ..< length [3, 0, 3 :: real] - 1]
              @ filter (double_flag cfgA [3, 0, 3]) [1 ..< length [3, 0, 3 :: real] - 1]"
    by blast
  from b have "doubleTRM s1 = [1]" "doubleTRM s2 = [1, 1]"
    by (simp_all only: double_flag_segsC thermocline_segmentation_init_def
        thermocline_segmentation.simps append.simps)
  with a gradients_segsC show ?thesis
    by blast
qed

section \<open>The steps of the segmentation detector\<close>

lemma list_get_0_Inr: "list_get xs 0 = Inr x \<Longrightarrow> xs \<noteq> [] \<and> x = hd xs"
  by (cases xs) (simp_all add: list_get_def)

lemma list_get_m1_Inr: "list_get xs (-1) = Inr x \<Longrightarrow> xs \<noteq> [] \<and> x = last xs"
  by (cases "xs = []") (simp_all add: list_get_Nil list_get_m1)

lemma takeWhile_stop:
  "\<exists>x \<in> set xs. \<not> P x \<Longrightarrow>
     length (takeWhile P xs) < length xs \<and> \<not> P (xs ! length (takeWhile P xs))"
  by (induction xs) auto

lemma takeWhile_before: "j < length (takeWhile P xs) \<Longrightarrow> P (xs ! j)"
proof -
  assume j: "j < length (takeWhile P xs)"
  then have "takeWhile P xs ! j \<in> set (takeWhile P xs)"
    by simp
  then have "P (takeWhile P xs ! j)"
    by (blast dest: set_takeWhileD)
  with j show ?thesis
    by (simp add: takeWhile_nth)
qed

lemma np_argmax_Inr:
  assumes "np_argmax gs = Inr k"
  shows "gs \<noteq> []" and "k < length gs" and "gs ! k = Max (set gs)"
proof -
  show ne: "gs \<noteq> []"
    using assms by (auto simp: np_argmax_def split: if_splits)
  from assms ne have k: "k = length (takeWhile (\<lambda>x. x \<noteq> Max (set gs)) gs)"
    by (simp add: np_argmax_def)
  from ne have "Max (set gs) \<in> set gs"
    by (intro Max_in) simp_all
  then have "\<exists>x \<in> set gs. \<not> x \<noteq> Max (set gs)"
    by blast
  from takeWhile_stop [OF this] show "k < length gs" and "gs ! k = Max (set gs)"
    by (simp_all add: k)
qed

lemma np_argmax_first:
  assumes "np_argmax gs = Inr k" and "j < k"
  shows "gs ! j < gs ! k"
proof -
  from assms(1) have ne: "gs \<noteq> []" and kk: "gs ! k = Max (set gs)" and kl: "k < length gs"
    by (rule np_argmax_Inr)+
  from assms(1) ne have k: "k = length (takeWhile (\<lambda>x. x \<noteq> Max (set gs)) gs)"
    by (simp add: np_argmax_def)
  from assms(2) have "gs ! j \<noteq> Max (set gs)"
    unfolding k by (rule takeWhile_before)
  moreover have "gs ! j \<le> Max (set gs)"
    using assms(2) kl by (intro Max_ge) simp_all
  ultimately show ?thesis
    by (simp add: kk)
qed

lemma removeNoise_Inr:
  assumes "removeNoise cfg d segs0 = Inr (segs, gs, k)"
  shows "gradients cfg segs = Inr gs" and "np_argmax gs = Inr k"
  using assms
  by (auto simp: removeNoise_def split: sum.splits if_splits)

lemma find_LEP_index_Inr:
  assumes "find_LEP_index cfg segs gs k = Inr li"
    and "length gs = length segs" and "k < length gs"
  shows "li = (if k = 0 then None
               else if \<bar>gs ! 1\<bar> < stable_gradient cfg then Some (last (snd (segs ! 1)))
               else if \<bar>gs ! 0\<bar> > stable_gradient2 cfg then None
               else Some (last (snd (segs ! 0))))"
proof (cases "k = 0")
  case True
  with assms(1) show ?thesis
    by (auto simp: find_LEP_index_def split: sum.splits)
next
  case False
  with assms(2,3) have len: "2 \<le> length gs" "2 \<le> length segs" "gs \<noteq> []" "segs \<noteq> []"
    by auto
  with assms(1) False show ?thesis
    by (auto simp: find_LEP_index_def list_get_0 list_get_1 hd_conv_nth
        split: sum.splits if_splits dest: list_get_m1_Inr)
qed

lemma find_UHY_index_Inr:
  assumes "find_UHY_index cfg segs gs k = Inr ui"
    and "length gs = length segs" and "k < length gs"
  shows "ui = (if k = length gs - 1 then None
               else if \<bar>gs ! (length gs - 2)\<bar> < stable_gradient cfg
                 then Some (hd (snd (segs ! (length segs - 2))))
               else if \<bar>last gs\<bar> > stable_gradient2 cfg then None
               else Some (hd (snd (last segs))))"
proof (cases "k = length gs - 1")
  case True
  with assms(3) have "int k = int (length gs) - 1"
    by auto
  with assms(1) True show ?thesis
    by (auto simp: find_UHY_index_def split: sum.splits)
next
  case False
  with assms(2,3) have len: "2 \<le> length gs" "2 \<le> length segs" "gs \<noteq> []" "segs \<noteq> []"
    by auto
  from False assms(3) have ne: "int k \<noteq> int (length gs) - 1"
    by auto
  with assms(1) len show ?thesis
    by (auto simp: find_UHY_index_def list_get_m1 list_get_m2
        split: sum.splits if_splits dest: list_get_0_Inr)
qed

lemma locate_closed:
  "k < length gs \<Longrightarrow> \<not> minTRM_gradient cfg < gs ! k \<Longrightarrow> locate cfg d segs gs k self = Inr self"
  by (simp add: locate_def list_get_nat)

lemma locate_open:
  assumes "locate cfg d segs gs k self = Inr s1"
    and "length gs = length segs" and "k < length gs" and "minTRM_gradient cfg < gs ! k"
  shows "\<exists>mid li ui. int_mean (snd (segs ! k)) = Inr mid \<and> mid < length d
           \<and> find_LEP_index cfg segs gs k = Inr li
           \<and> find_UHY_index cfg segs gs k = Inr ui
           \<and> (\<forall>j. li = Some j \<longrightarrow> j < length d) \<and> (\<forall>j. ui = Some j \<longrightarrow> j < length d)
           \<and> s1 = self\<lparr>TRM := Some (d ! mid),
                        LEP := (case li of None \<Rightarrow> LEP self | Some j \<Rightarrow> Some (d ! j)),
                        UHY := (case ui of None \<Rightarrow> UHY self | Some j \<Rightarrow> Some (d ! j))\<rparr>"
proof -
  from assms(2,3) have k: "list_get gs (int k) = Inr (gs ! k)"
    "list_get segs (int k) = Inr (segs ! k)"
    by (simp_all add: list_get_nat)
  from assms(1,4) obtain mid where mid: "int_mean (snd (segs ! k)) = Inr mid"
    by (auto simp: locate_def k split: sum.splits)
  from assms(1,4) mid have midl: "mid < length d"
    by (auto simp: locate_def k series_get_def split: sum.splits if_splits)
  from assms(1,4) mid midl obtain li where li: "find_LEP_index cfg segs gs k = Inr li"
    by (auto simp: locate_def k series_get_def split: sum.splits)
  from assms(1,4) mid midl li obtain ui where ui: "find_UHY_index cfg segs gs k = Inr ui"
    by (auto simp: locate_def k series_get_def split: sum.splits)
  from assms(1,4) mid midl li ui show ?thesis
    by (cases li; cases ui)
      (auto simp: locate_def k series_get_def split: sum.splits if_splits)
qed

lemma detect_steps:
  assumes fit: "fit (max_error cfg) (Temperature data) = Inr segs0"
    and rn: "removeNoise cfg (Depth data) segs0 = Inr (segs, gs, k)"
  shows "detect fit cfg self data sm =
     (if length (Depth data) < 2 then Inl KeyError
      else case locate cfg (Depth data) segs gs k (self\<lparr>gradient := gs\<rparr>) of
             Inl e \<Rightarrow> Inl e
           | Inr s1 \<Rightarrow>
               Inr (s1\<lparr>TRM_gradient := Some (Max (set gs)),
                       num_segments := Some (length segs),
                       TRM_idx := Some k,
                       doubleTRM := doubleTRM s1 @ filter (double_flag cfg gs) [1 ..< length gs - 1],
                       positiveSeg := filter (positive_flag cfg gs) [0 ..< length gs],
                       model := (if sm then Some segs else model s1)\<rparr>))"
proof -
  from rn have g: "gradients cfg segs = Inr gs"
    by (rule removeNoise_Inr)
  show ?thesis
    by (auto simp: detect_def fit rn series_get_def detectDoubleTRM_append [OF g]
        detectPositiveGradient_filter [OF g] split: sum.splits)
qed

lemma find_LEP_index_nonempty:
  assumes "find_LEP_index cfg segs gs k = Inr li"
    and "length gs = length segs" and "k < length gs"
  shows "snd (segs ! 0) \<noteq> []"
    and "k \<noteq> 0 \<Longrightarrow> \<bar>gs ! 1\<bar> < stable_gradient cfg \<Longrightarrow> snd (segs ! 1) \<noteq> []"
proof -
  from assms(2,3) have ne: "segs \<noteq> []"
    by auto
  with assms(1) show "snd (segs ! 0) \<noteq> []"
    by (auto simp: find_LEP_index_def list_get_0 hd_conv_nth list_get_Nil split: sum.splits)
next
  assume k: "k \<noteq> 0" and st: "\<bar>gs ! 1\<bar> < stable_gradient cfg"
  with assms(2,3) have len: "2 \<le> length gs" "2 \<le> length segs" "segs \<noteq> []"
    by auto
  with assms(1) k st show "snd (segs ! 1) \<noteq> []"
    by (auto simp: find_LEP_index_def list_get_0 list_get_1 list_get_Nil split: sum.splits)
qed

lemma find_UHY_index_nonempty:
  assumes "find_UHY_index cfg segs gs k = Inr ui"
    and "length gs = length segs" and "k < length gs"
  shows "snd (last segs) \<noteq> []"
    and "k \<noteq> length gs - 1 \<Longrightarrow> \<bar>gs ! (length gs - 2)\<bar> < stable_gradient cfg
           \<Longrightarrow> snd (segs ! (length segs - 2)) \<noteq> []"
proof -
  from assms(2,3) have ne: "segs \<noteq> []"
    by auto
  with assms(1) show "snd (last segs) \<noteq> []"
    by (auto simp: find_UHY_index_def list_get_m1 list_get_Nil split: sum.splits)
next
  assume k: "k \<noteq> length gs - 1" and st: "\<bar>gs ! (length gs - 2)\<bar> < stable_gradient cfg"
  with assms(2,3) have len: "2 \<le> length gs" "2 \<le> length segs" "segs \<noteq> []"
    by auto
  from k assms(3) have ne: "int k \<noteq> int (length gs) - 1"
    by auto
  with assms(1) k st len show "snd (segs ! (length segs - 2)) \<noteq> []"
    by (auto simp: find_UHY_index_def list_get_m1 list_get_m2 list_get_Nil split: sum.splits)
qed

lemma detect_open:
  assumes fit: "fit (max_error cfg) (Temperature data) = Inr segs0"
    and rn: "removeNoise cfg (Depth data) segs0 = Inr (segs, gs, k)"
    and gate: "minTRM_gradient cfg < gs ! k"
    and run: "detect fit cfg thermocline_segmentation_init data sm = Inr st"
  shows "\<exists>mid li ui. int_mean (snd (segs ! k)) = Inr mid \<and> mid < length (Depth data)
           \<and> find_LEP_index cfg segs gs k = Inr li
           \<and> find_UHY_index cfg segs gs k = Inr ui
           \<and> (\<forall>j. li = Some j \<longrightarrow> j < length (Depth data))
           \<and> (\<forall>j. ui = Some j \<longrightarrow> j < length (Depth data))
           \<and> TRM st = Some (Depth data ! mid)
           \<and> LEP st = map_option (\<lambda>j. Depth data ! j) li
           \<and> UHY st = map_option (\<lambda>j. Depth data ! j) ui"
proof -
  from rn have g: "gradients cfg segs = Inr gs" and am: "np_argmax gs = Inr k"
    by (rule removeNoise_Inr)+
  from g have len: "length gs = length segs"
    by (rule gradients_length)
  from am have k: "k < length gs"
    by (rule np_argmax_Inr)
  note steps = detect_steps [where fit = fit and cfg = cfg and data = data and sm = sm
      and self = thermocline_segmentation_init, OF fit rn]
  from run obtain s1 where
    loc: "locate cfg (Depth data) segs gs k (thermocline_segmentation_init\<lparr>gradient := gs\<rparr>) = Inr s1"
    and st: "st = s1\<lparr>TRM_gradient := Some (Max (set gs)),
                       num_segments := Some (length segs),
                       TRM_idx := Some k,
                       doubleTRM := doubleTRM s1 @ filter (double_flag cfg gs) [1 ..< length gs - 1],
                       positiveSeg := filter (positive_flag cfg gs) [0 ..< length gs],
                       model := (if sm then Some segs else model s1)\<rparr>"
    unfolding steps by (auto split: if_splits sum.splits)
  from locate_open [OF loc len k gate] obtain mid li ui where
    a: "int_mean (snd (segs ! k)) = Inr mid" "mid < length (Depth data)"
      "find_LEP_index cfg segs gs k = Inr li" "find_UHY_index cfg segs gs k = Inr ui"
      "\<forall>j. li = Some j \<longrightarrow> j < length (Depth data)"
      "\<forall>j. ui = Some j \<longrightarrow> j < length (Depth data)"
    and s1: "s1 = thermocline_segmentation_init\<lparr>gradient := gs\<rparr>
        \<lparr>TRM := Some (Depth data ! mid),
         LEP := (case li of None \<Rightarrow> LEP (thermocline_segmentation_init\<lparr>gradient := gs\<rparr>)
                 | Some j \<Rightarrow> Some (Depth data ! j)),
         UHY := (case ui of None \<Rightarrow> UHY (thermocline_segmentation_init\<lparr>gradient := gs\<rparr>)
                 | Some j \<Rightarrow> Some (Depth data ! j))\<rparr>"
    by blast
  have "TRM st = Some (Depth data ! mid)"
    and "LEP st = map_option (\<lambda>j. Depth data ! j) li"
    and "UHY st = map_option (\<lambda>j. Depth data ! j) ui"
    by (simp_all add: st s1 thermocline_segmentation_init_def split: option.splits)
  with a show ?thesis
    by blast
qed

lemma int_mean_div:
  "idx \<noteq> [] \<Longrightarrow> int_mean idx = Inr (sum_list idx div length idx)"
proof -
  assume "idx \<noteq> []"
  have "\<lfloor>real (sum_list idx) / real (length idx)\<rfloor> = int (sum_list idx div length idx)"
    by (rule floor_divide_of_nat_eq)
  moreover have "0 \<le> real (sum_list idx) / real (length idx)"
    by simp
  ultimately have "nat (py_int (np_mean idx)) = sum_list idx div length idx"
    by (simp add: py_int_def np_mean_def)
  with \<open>idx \<noteq> []\<close> show ?thesis
    by (simp add: int_mean_def)
qed

lemma int_mean_Inr: "int_mean idx = Inr m \<Longrightarrow> idx \<noteq> [] \<and> m = sum_list idx div length idx"
  by (cases "idx = []") (simp_all add: int_mean_div, simp add: int_mean_def)

lemma sum_list_range: "i0 \<le> i1 \<Longrightarrow> 2 * sum_list [i0 ..< Suc i1] = (i0 + i1) * (Suc i1 - i0)"
proof (induction i1)
  case 0
  then show ?case by simp
next
  case (Suc n)
  show ?case
  proof (cases "i0 = Suc n")
    case True
    then show ?thesis by simp
  next
    case False
    with Suc.prems have le: "i0 \<le> n" by simp
    from Suc.IH [OF le] le show ?thesis
      by (simp add: Suc_diff_le algebra_simps)
  qed
qed

lemma half_product_div:
  assumes "2 * s = a * n" and "0 < (n::nat)"
  shows "s div n = a div 2"
proof (cases "even a")
  case True
  then obtain b where a: "a = 2 * b" by (auto elim: evenE)
  with assms(1) have "s = b * n" by simp
  with assms(2) a show ?thesis by simp
next
  case False
  then obtain b where a: "a = 2 * b + 1" by (auto elim: oddE)
  from assms(1) have "even (a * n)"
    by (metis dvd_triv_left)
  with False have "even n" by simp
  then obtain m where n: "n = 2 * m" by (auto elim: evenE)
  with assms(2) have m: "0 < m" by simp
  from assms(1) a n have "s = (2 * b + 1) * m" by simp
  then have "s div n = ((2 * b + 1) * m) div (2 * m)"
    by (simp add: n)
  also have "\<dots> = (2 * b + 1) div 2"
  proof -
    from m have "m \<noteq> 0" by simp
    from div_mult_mult2 [OF this, of "2 * b + 1" 2] show ?thesis .
  qed
  finally show ?thesis
    by (simp add: a)
qed

lemma mean_of_range:
  assumes "i0 \<le> i1"
  shows "sum_list [i0 ..< Suc i1] div length [i0 ..< Suc i1] = (i0 + i1) div 2"
proof -
  from assms have pos: "0 < Suc i1 - i0"
    by simp
  from half_product_div [OF sum_list_range [OF assms] pos] show ?thesis
    by (simp only: length_upt)
qed

section \<open>Runs of the segmentation detector\<close>

lemmas eval_defs = getGradientFromSegment_def list_get_def series_get_def series_take_def
  int_mean_def np_mean_def py_int_def find_LEP_index_def find_UHY_index_def np_argmax_def

lemma gradients_segsA: "gradients cfgA segsA = Inr [0, 5, 0]"
  by (simp add: segsA_def cfgA_def eval_defs)

lemma removeNoise_segsA: "removeNoise cfgA (Depth dataA) segsA = Inr (segsA, [0, 5, 0], 1)"
  by (simp add: removeNoise_def gradients_segsA np_argmax_def)

lemma locate_segsA:
  "locate cfgA (Depth dataA) segsA [0, 5, 0] 1 s =
     Inr (s\<lparr>TRM := Some 5, LEP := Some 3, UHY := Some 7\<rparr>)"
  by (simp add: locate_def segsA_def cfgA_def dataA_def eval_defs)

lemma fit_engine: "engine_returning segs (max_error cfg) (Temperature data) = Inr segs"
  by (simp add: engine_returning_def)

lemma detect_runs:
  assumes fit: "fit (max_error cfg) (Temperature data) = Inr segs0"
    and rn: "removeNoise cfg (Depth data) segs0 = Inr (segs, gs, k)"
    and rows: "2 \<le> length (Depth data)"
    and loc: "locate cfg (Depth data) segs gs k (self\<lparr>gradient := gs\<rparr>) = Inr s1"
  shows "\<exists>st. detect fit cfg self data sm = Inr st \<and> TRM st = TRM s1 \<and> LEP st = LEP s1
           \<and> UHY st = UHY s1"
proof -
  from rows have r: "\<not> length (Depth data) < 2"
    by simp
  show ?thesis
    unfolding detect_steps [where fit = fit and cfg = cfg and data = data, OF fit rn]
    by (simp add: r loc)
qed

lemma rows_dataA: "2 \<le> length (Depth dataA)"
  by (simp add: dataA_def)

lemma rows_dataB: "2 \<le> length (Depth dataB)"
  by (simp add: dataB_def)

lemma rows_dataD: "2 \<le> length (Depth dataD)"
  by (simp add: dataD_def)

lemma detect_segsA:
  "\<exists>st. detect (engine_returning segsA) cfgA thermocline_segmentation_init dataA True = Inr st"
  using detect_runs [where fit = "engine_returning segsA", OF fit_engine removeNoise_segsA
      rows_dataA locate_segsA]
  by blast

lemma gradients_segsB: "gradients cfgA segsB = Inr [0, 0]"
  by (simp add: segsB_def cfgA_def eval_defs)

lemma removeNoise_segsB: "removeNoise cfgA (Depth dataB) segsB = Inr (segsB, [0, 0], 0)"
  by (simp add: removeNoise_def gradients_segsB np_argmax_def)
    (simp add: segsB_def dataB_def eval_defs)

lemma gradients_segsD: "gradients cfgA segsD = Inr [0, 6, 0]"
  by (simp add: segsD_def cfgA_def eval_defs)

lemma removeNoise_segsD: "removeNoise cfgA (Depth dataD) segsD = Inr (segsD, [0, 6, 0], 1)"
  by (simp add: removeNoise_def gradients_segsD np_argmax_def)

lemma locate_segsD:
  "locate cfgA (Depth dataD) segsD [0, 6, 0] 1 s =
     Inr (s\<lparr>TRM := Some 3, LEP := Some 2, UHY := Some 5\<rparr>)"
  by (simp add: locate_def segsD_def cfgA_def dataD_def eval_defs)

lemma detect_segsD:
  "\<exists>st. detect (engine_returning segsD) cfgA thermocline_segmentation_init dataD True = Inr st
      \<and> TRM st = Some 3"
  using detect_runs [where fit = "engine_returning segsD", OF fit_engine removeNoise_segsD
      rows_dataD locate_segsD, of thermocline_segmentation_init True]
  by auto



text \<open>
  C3. Let the engine answer, the profile have the two rows that \<^verbatim>\<open>detect\<close> reads first,
  and the noise guard leave the segment list \<open>segs\<close> with gradients \<open>gs\<close> whose greatest
  is at most \<open>minTRM_gradient\<close>. Then \<^verbatim>\<open>detect\<close> on a fresh detector raises nothing and
  leaves TRM, LEP and UHY at \<open>None\<close>, and it records the greatest gradient, the number of
  segments, the position of the greatest gradient and the two anomaly lists, whose lengths
  are the numbers of flagged positions.
\<close>

theorem detect_gate_closed:
  assumes fit: "fit (max_error cfg) (Temperature data) = Inr segs0"
    and rows: "2 \<le> length (Depth data)"
    and rn: "removeNoise cfg (Depth data) segs0 = Inr (segs, gs, k)"
    and gate: "Max (set gs) \<le> minTRM_gradient cfg"
  shows "\<exists>st. detect fit cfg thermocline_segmentation_init data sm = Inr st
           \<and> TRM st = None \<and> LEP st = None \<and> UHY st = None
           \<and> TRM_gradient st = Some (Max (set gs))
           \<and> num_segments st = Some (length segs)
           \<and> TRM_idx st = Some k \<and> k < length gs \<and> gs ! k = Max (set gs)
           \<and> length (doubleTRM st) = card {i. 1 \<le> i \<and> i < length gs - 1 \<and> double_flag cfg gs i}
           \<and> length (positiveSeg st) = card {i. 0 \<le> i \<and> i < length gs \<and> positive_flag cfg gs i}"
proof -
  from rn have am: "np_argmax gs = Inr k"
    by (rule removeNoise_Inr)
  then have k: "k < length gs" "gs ! k = Max (set gs)"
    by (rule np_argmax_Inr)+
  with gate have "\<not> minTRM_gradient cfg < gs ! k"
    by simp
  from locate_closed [OF k(1) this]
  have loc: "locate cfg (Depth data) segs gs k (thermocline_segmentation_init\<lparr>gradient := gs\<rparr>)
      = Inr (thermocline_segmentation_init\<lparr>gradient := gs\<rparr>)" .
  from rows have r: "\<not> length (Depth data) < 2"
    by simp
  have "detect fit cfg thermocline_segmentation_init data sm =
      Inr (thermocline_segmentation_init\<lparr>gradient := gs,
             TRM_gradient := Some (Max (set gs)),
             num_segments := Some (length segs),
             TRM_idx := Some k,
             doubleTRM := doubleTRM (thermocline_segmentation_init\<lparr>gradient := gs\<rparr>)
                @ filter (double_flag cfg gs) [1 ..< length gs - 1],
             positiveSeg := filter (positive_flag cfg gs) [0 ..< length gs],
             model := (if sm then Some segs
                       else model (thermocline_segmentation_init\<lparr>gradient := gs\<rparr>))\<rparr>)"
    by (simp only: detect_steps [where fit = fit and cfg = cfg and data = data, OF fit rn]
        r loc if_False sum.case)
  then show ?thesis
    by (simp add: thermocline_segmentation_init_def k length_filter_upt_card)
qed

theorem detect_gate_closed_witness:
  "engine_returning segsB (max_error cfgA) (Temperature dataB) = Inr segsB
   \<and> 2 \<le> length (Depth dataB)
   \<and> removeNoise cfgA (Depth dataB) segsB = Inr (segsB, [0, 0], 0)
   \<and> Max (set [0, 0 :: real]) \<le> minTRM_gradient cfgA
   \<and> (\<exists>st. detect (engine_returning segsB) cfgA thermocline_segmentation_init dataB True = Inr st
         \<and> TRM st = None \<and> LEP st = None \<and> UHY st = None
         \<and> TRM_gradient st = Some 0 \<and> num_segments st = Some 2 \<and> TRM_idx st = Some 0)"
proof -
  have gate: "Max (set [0, 0 :: real]) \<le> minTRM_gradient cfgA"
    by (simp add: cfgA_def)
  from detect_gate_closed [where fit = "engine_returning segsB" and sm = True,
      OF fit_engine rows_dataB removeNoise_segsB gate]
  have "\<exists>st. detect (engine_returning segsB) cfgA thermocline_segmentation_init dataB True = Inr st
         \<and> TRM st = None \<and> LEP st = None \<and> UHY st = None
         \<and> TRM_gradient st = Some 0 \<and> num_segments st = Some 2 \<and> TRM_idx st = Some 0"
    by (auto simp: segsB_def)
  with gate show ?thesis
    by (simp add: fit_engine rows_dataB removeNoise_segsB)
qed

text \<open>
  C4. Let the engine answer and the noise guard leave the segment list \<open>segs\<close> with
  gradients \<open>gs\<close>, the greatest of them at position \<open>k\<close> and above \<open>minTRM_gradient\<close>.
  Whenever \<^verbatim>\<open>detect\<close> on a fresh detector returns, LEP is \<open>None\<close> if \<open>k = 0\<close>;
  otherwise the depth at the last index of segment 1 if \<open>\<bar>gs ! 1\<bar> < stable_gradient\<close>;
  otherwise \<open>None\<close> if \<open>\<bar>gs ! 0\<bar> > stable_gradient2\<close>; otherwise the depth at the
  last index of segment 0. The index lists read are not empty and the indices are rows of
  the profile.
\<close>

theorem detect_LEP_rule:
  assumes fit: "fit (max_error cfg) (Temperature data) = Inr segs0"
    and rn: "removeNoise cfg (Depth data) segs0 = Inr (segs, gs, k)"
    and gate: "minTRM_gradient cfg < gs ! k"
    and run: "detect fit cfg thermocline_segmentation_init data sm = Inr st"
  shows "LEP st =
           (if k = 0 then None
            else if \<bar>gs ! 1\<bar> < stable_gradient cfg
              then Some (Depth data ! last (snd (segs ! 1)))
            else if \<bar>gs ! 0\<bar> > stable_gradient2 cfg then None
            else Some (Depth data ! last (snd (segs ! 0))))
         \<and> snd (segs ! 0) \<noteq> []
         \<and> (k \<noteq> 0 \<and> \<bar>gs ! 1\<bar> < stable_gradient cfg \<longrightarrow>
              snd (segs ! 1) \<noteq> [] \<and> last (snd (segs ! 1)) < length (Depth data))
         \<and> (k \<noteq> 0 \<and> \<not> \<bar>gs ! 1\<bar> < stable_gradient cfg \<and> \<not> \<bar>gs ! 0\<bar> > stable_gradient2 cfg \<longrightarrow>
              last (snd (segs ! 0)) < length (Depth data))"
proof -
  from rn have g: "gradients cfg segs = Inr gs" and am: "np_argmax gs = Inr k"
    by (rule removeNoise_Inr)+
  from g have len: "length gs = length segs"
    by (rule gradients_length)
  from am have k: "k < length gs"
    by (rule np_argmax_Inr)
  from detect_open [OF fit rn gate run] obtain li where
    li: "find_LEP_index cfg segs gs k = Inr li"
    and bound: "\<forall>j. li = Some j \<longrightarrow> j < length (Depth data)"
    and lep: "LEP st = map_option (\<lambda>j. Depth data ! j) li"
    by blast
  note v = find_LEP_index_Inr [OF li len k]
  note ne = find_LEP_index_nonempty [OF li len k]
  from v lep have "LEP st =
           (if k = 0 then None
            else if \<bar>gs ! 1\<bar> < stable_gradient cfg
              then Some (Depth data ! last (snd (segs ! 1)))
            else if \<bar>gs ! 0\<bar> > stable_gradient2 cfg then None
            else Some (Depth data ! last (snd (segs ! 0))))"
    by simp
  moreover from v bound ne(2)
  have "k \<noteq> 0 \<and> \<bar>gs ! 1\<bar> < stable_gradient cfg \<longrightarrow>
      snd (segs ! 1) \<noteq> [] \<and> last (snd (segs ! 1)) < length (Depth data)"
    by simp
  moreover from v bound
  have "k \<noteq> 0 \<and> \<not> \<bar>gs ! 1\<bar> < stable_gradient cfg \<and> \<not> \<bar>gs ! 0\<bar> > stable_gradient2 cfg \<longrightarrow>
      last (snd (segs ! 0)) < length (Depth data)"
    by simp
  ultimately show ?thesis
    using ne(1) by blast
qed

theorem detect_LEP_rule_witness:
  "engine_returning segsA (max_error cfgA) (Temperature dataA) = Inr segsA
   \<and> removeNoise cfgA (Depth dataA) segsA = Inr (segsA, [0, 5, 0], 1)
   \<and> minTRM_gradient cfgA < [0, 5, 0] ! 1
   \<and> (\<exists>st. detect (engine_returning segsA) cfgA thermocline_segmentation_init dataA True = Inr st
         \<and> LEP st = Some 3)"
proof -
  have gate: "minTRM_gradient cfgA < [0, 5, 0] ! 1"
    by (simp add: cfgA_def)
  from detect_segsA obtain st where
    run: "detect (engine_returning segsA) cfgA thermocline_segmentation_init dataA True = Inr st"
    by blast
  from detect_LEP_rule [where fit = "engine_returning segsA", OF fit_engine removeNoise_segsA gate run]
  have "LEP st = Some 3"
    by (simp add: cfgA_def segsA_def dataA_def)
  with run gate show ?thesis
    by (auto simp: fit_engine removeNoise_segsA)
qed

text \<open>
  C5. Under the hypotheses of the rule for LEP, UHY is \<open>None\<close> if the greatest gradient is
  in the last segment; otherwise the depth at the first index of the second-to-last segment
  if the gradient of that segment is below \<open>stable_gradient\<close> in absolute value; otherwise
  \<open>None\<close> if the gradient of the last segment is above \<open>stable_gradient2\<close> in absolute
  value; otherwise the depth at the first index of the last segment.
\<close>

theorem detect_UHY_rule:
  assumes fit: "fit (max_error cfg) (Temperature data) = Inr segs0"
    and rn: "removeNoise cfg (Depth data) segs0 = Inr (segs, gs, k)"
    and gate: "minTRM_gradient cfg < gs ! k"
    and run: "detect fit cfg thermocline_segmentation_init data sm = Inr st"
  shows "UHY st =
           (if k = length gs - 1 then None
            else if \<bar>gs ! (length gs - 2)\<bar> < stable_gradient cfg
              then Some (Depth data ! hd (snd (segs ! (length segs - 2))))
            else if \<bar>last gs\<bar> > stable_gradient2 cfg then None
            else Some (Depth data ! hd (snd (last segs))))
         \<and> snd (last segs) \<noteq> []
         \<and> (k \<noteq> length gs - 1 \<and> \<bar>gs ! (length gs - 2)\<bar> < stable_gradient cfg \<longrightarrow>
              snd (segs ! (length segs - 2)) \<noteq> []
              \<and> hd (snd (segs ! (length segs - 2))) < length (Depth data))
         \<and> (k \<noteq> length gs - 1 \<and> \<not> \<bar>gs ! (length gs - 2)\<bar> < stable_gradient cfg
              \<and> \<not> \<bar>last gs\<bar> > stable_gradient2 cfg \<longrightarrow>
              hd (snd (last segs)) < length (Depth data))"
proof -
  from rn have g: "gradients cfg segs = Inr gs" and am: "np_argmax gs = Inr k"
    by (rule removeNoise_Inr)+
  from g have len: "length gs = length segs"
    by (rule gradients_length)
  from am have k: "k < length gs"
    by (rule np_argmax_Inr)
  from detect_open [OF fit rn gate run] obtain ui where
    ui: "find_UHY_index cfg segs gs k = Inr ui"
    and bound: "\<forall>j. ui = Some j \<longrightarrow> j < length (Depth data)"
    and uhy: "UHY st = map_option (\<lambda>j. Depth data ! j) ui"
    by blast
  note v = find_UHY_index_Inr [OF ui len k]
  note ne = find_UHY_index_nonempty [OF ui len k]
  from v uhy have "UHY st =
           (if k = length gs - 1 then None
            else if \<bar>gs ! (length gs - 2)\<bar> < stable_gradient cfg
              then Some (Depth data ! hd (snd (segs ! (length segs - 2))))
            else if \<bar>last gs\<bar> > stable_gradient2 cfg then None
            else Some (Depth data ! hd (snd (last segs))))"
    by simp
  moreover from v bound ne(2)
  have "k \<noteq> length gs - 1 \<and> \<bar>gs ! (length gs - 2)\<bar> < stable_gradient cfg \<longrightarrow>
      snd (segs ! (length segs - 2)) \<noteq> []
      \<and> hd (snd (segs ! (length segs - 2))) < length (Depth data)"
    by simp
  moreover from v bound
  have "k \<noteq> length gs - 1 \<and> \<not> \<bar>gs ! (length gs - 2)\<bar> < stable_gradient cfg
      \<and> \<not> \<bar>last gs\<bar> > stable_gradient2 cfg \<longrightarrow>
      hd (snd (last segs)) < length (Depth data)"
    by simp
  ultimately show ?thesis
    using ne(1) by blast
qed

theorem detect_UHY_rule_witness:
  "engine_returning segsA (max_error cfgA) (Temperature dataA) = Inr segsA
   \<and> removeNoise cfgA (Depth dataA) segsA = Inr (segsA, [0, 5, 0], 1)
   \<and> minTRM_gradient cfgA < [0, 5, 0] ! 1
   \<and> (\<exists>st. detect (engine_returning segsA) cfgA thermocline_segmentation_init dataA True = Inr st
         \<and> UHY st = Some 7)"
proof -
  have gate: "minTRM_gradient cfgA < [0, 5, 0] ! 1"
    by (simp add: cfgA_def)
  from detect_segsA obtain st where
    run: "detect (engine_returning segsA) cfgA thermocline_segmentation_init dataA True = Inr st"
    by blast
  from detect_UHY_rule [where fit = "engine_returning segsA", OF fit_engine removeNoise_segsA gate run]
  have "UHY st = Some 7"
    by (simp add: cfgA_def segsA_def dataA_def)
  with run gate show ?thesis
    by (auto simp: fit_engine removeNoise_segsA)
qed

text \<open>
  C2 (as the code has it). Under the same hypotheses TRM is the depth at the mean of the
  index list of the segment with the greatest gradient, truncated to an integer: for the
  index range from \<open>i0\<close> to \<open>i1\<close> this is the index \<open>(i0 + i1) div 2\<close>, the midpoint
  rounded down.
\<close>

theorem detect_TRM_truncated_midpoint:
  assumes fit: "fit (max_error cfg) (Temperature data) = Inr segs0"
    and rn: "removeNoise cfg (Depth data) segs0 = Inr (segs, gs, k)"
    and gate: "minTRM_gradient cfg < gs ! k"
    and run: "detect fit cfg thermocline_segmentation_init data sm = Inr st"
  shows "snd (segs ! k) \<noteq> []
         \<and> sum_list (snd (segs ! k)) div length (snd (segs ! k)) < length (Depth data)
         \<and> TRM st = Some (Depth data ! (sum_list (snd (segs ! k)) div length (snd (segs ! k))))
         \<and> (\<forall>i0 i1. i0 \<le> i1 \<and> snd (segs ! k) = [i0 ..< Suc i1] \<longrightarrow>
               (i0 + i1) div 2 < length (Depth data)
               \<and> TRM st = Some (Depth data ! ((i0 + i1) div 2)))"
proof -
  from detect_open [OF fit rn gate run] obtain mid where
    mid: "int_mean (snd (segs ! k)) = Inr mid" and bound: "mid < length (Depth data)"
    and trm: "TRM st = Some (Depth data ! mid)"
    by blast
  from int_mean_Inr [OF mid] have ne: "snd (segs ! k) \<noteq> []"
    and m: "mid = sum_list (snd (segs ! k)) div length (snd (segs ! k))"
    by simp_all
  have "\<forall>i0 i1. i0 \<le> i1 \<and> snd (segs ! k) = [i0 ..< Suc i1] \<longrightarrow>
          (i0 + i1) div 2 < length (Depth data)
          \<and> TRM st = Some (Depth data ! ((i0 + i1) div 2))"
  proof (intro allI impI)
    fix i0 i1
    assume a: "i0 \<le> i1 \<and> snd (segs ! k) = [i0 ..< Suc i1]"
    then have "mid = (i0 + i1) div 2"
      using mean_of_range [of i0 i1] by (simp only: m)
    with bound trm show "(i0 + i1) div 2 < length (Depth data)
          \<and> TRM st = Some (Depth data ! ((i0 + i1) div 2))"
      by simp
  qed
  with ne bound trm m show ?thesis
    by simp
qed

theorem detect_TRM_truncated_midpoint_witness:
  "engine_returning segsD (max_error cfgA) (Temperature dataD) = Inr segsD
   \<and> removeNoise cfgA (Depth dataD) segsD = Inr (segsD, [0, 6, 0], 1)
   \<and> minTRM_gradient cfgA < [0, 6, 0] ! 1
   \<and> (3::nat) \<le> 4 \<and> snd (segsD ! 1) = [3 ..< Suc 4]
   \<and> (\<exists>st. detect (engine_returning segsD) cfgA thermocline_segmentation_init dataD True = Inr st
         \<and> TRM st = Some (Depth dataD ! ((3 + 4) div 2)) \<and> Depth dataD ! ((3 + 4) div 2) = 3)"
proof -
  have gate: "minTRM_gradient cfgA < [0, 6, 0] ! 1"
    by (simp add: cfgA_def)
  have range: "(3::nat) \<le> 4 \<and> snd (segsD ! 1) = [3 ..< Suc 4]"
    by (simp add: segsD_def upt_conv_Cons)
  from detect_segsD obtain st where
    run: "detect (engine_returning segsD) cfgA thermocline_segmentation_init dataD True = Inr st"
    by blast
  from detect_TRM_truncated_midpoint [where fit = "engine_returning segsD",
      OF fit_engine removeNoise_segsD gate run] range
  have "TRM st = Some (Depth dataD ! ((3 + 4) div 2))"
    by blast
  moreover have "Depth dataD ! ((3 + 4) div 2) = 3"
    by (simp add: dataD_def)
  ultimately show ?thesis
    using run gate range by (auto simp: fit_engine removeNoise_segsD)
qed

text \<open>
  C2 (as stated) fails where the index range has an even number of points: for the range
  from 3 to 4 the rounded midpoint \<open>round (7 / 2)\<close> is 4, and the code reads the depth
  at index 3.
\<close>

theorem detect_TRM_rounded_midpoint_counterexample:
  "removeNoise cfgA (Depth dataD) segsD = Inr (segsD, [0, 6, 0], 1)
   \<and> minTRM_gradient cfgA < [0, 6, 0] ! 1
   \<and> snd (segsD ! 1) = [3, 4]
   \<and> map_sum id TRM (detect (engine_returning segsD) cfgA thermocline_segmentation_init dataD True)
       = Inr (Some 3)
   \<and> Depth dataD ! nat (round ((3 + 4) / 2 :: real)) = 4"
proof -
  from detect_segsD
  have "map_sum id TRM (detect (engine_returning segsD) cfgA thermocline_segmentation_init dataD True)
       = Inr (Some 3)"
    by auto
  moreover have "round ((3 + 4) / 2 :: real) = 4"
    by (simp add: round_def)
  then have "Depth dataD ! nat (round ((3 + 4) / 2 :: real)) = 4"
    by (simp add: dataD_def)
  moreover have "minTRM_gradient cfgA < [0, 6, 0] ! 1"
    by (simp add: cfgA_def)
  moreover have "snd (segsD ! 1) = [3, 4]"
    by (simp add: segsD_def)
  ultimately show ?thesis
    using removeNoise_segsD by blast
qed

section \<open>The anomaly counts of a run\<close>

lemma locate_keeps:
  assumes "locate cfg d segs gs k self = Inr s1"
  shows "gradient s1 = gradient self" and "doubleTRM s1 = doubleTRM self"
  using assms
  by (auto simp: locate_def split: sum.splits if_splits option.splits)

lemma detect_result:
  assumes fit: "fit (max_error cfg) (Temperature data) = Inr segs0"
    and rn: "removeNoise cfg (Depth data) segs0 = Inr (segs, gs, k)"
    and run: "detect fit cfg thermocline_segmentation_init data sm = Inr st"
  shows "gradient st = gs"
    and "doubleTRM st = filter (double_flag cfg gs) [1 ..< length gs - 1]"
    and "positiveSeg st = filter (positive_flag cfg gs) [0 ..< length gs]"
    and "TRM_gradient st = Some (Max (set gs))"
    and "num_segments st = Some (length segs)"
    and "TRM_idx st = Some k"
proof -
  note steps = detect_steps [where fit = fit and cfg = cfg and data = data and sm = sm
      and self = thermocline_segmentation_init, OF fit rn]
  from run obtain s1 where
    loc: "locate cfg (Depth data) segs gs k (thermocline_segmentation_init\<lparr>gradient := gs\<rparr>) = Inr s1"
    and st: "st = s1\<lparr>TRM_gradient := Some (Max (set gs)),
                       num_segments := Some (length segs),
                       TRM_idx := Some k,
                       doubleTRM := doubleTRM s1 @ filter (double_flag cfg gs) [1 ..< length gs - 1],
                       positiveSeg := filter (positive_flag cfg gs) [0 ..< length gs],
                       model := (if sm then Some segs else model s1)\<rparr>"
    unfolding steps by (auto split: if_splits sum.splits)
  from locate_keeps [OF loc] have "gradient s1 = gs" "doubleTRM s1 = []"
    by (simp_all add: thermocline_segmentation_init_def)
  then show "gradient st = gs"
    and "doubleTRM st = filter (double_flag cfg gs) [1 ..< length gs - 1]"
    and "positiveSeg st = filter (positive_flag cfg gs) [0 ..< length gs]"
    and "TRM_gradient st = Some (Max (set gs))"
    and "num_segments st = Some (length segs)"
    and "TRM_idx st = Some k"
    by (simp_all add: st)
qed

text \<open>
  C7. Let the engine answer and the noise guard leave the segment list \<open>segs\<close> with
  gradients \<open>gs\<close>. Whenever \<^verbatim>\<open>detect\<close> on a fresh detector returns, the double-TRM list
  has as many entries as there are interior positions \<open>i\<close> (from 1 to the length minus 2)
  with \<open>\<bar>gs ! i\<bar> < stable_gradient\<close>, \<open>gs ! (i - 1) > minTRM_gradient\<close> and
  \<open>gs ! (i + 1) > stable_gradient\<close>; the positive-gradient list has as many entries as there
  are positions with \<open>gs ! i < - stable_gradient\<close>; both lists are strictly increasing; and
  the ensemble reports these two lengths under the keys \<^verbatim>\<open>doubleTRM\<close> and
  \<^verbatim>\<open>positiveGradient\<close>.
\<close>

theorem detect_anomaly_counts:
  assumes fit: "bottomUp_fit_predict eng (max_error cfg) (Temperature data) = Inr segs0"
    and rn: "removeNoise cfg (Depth data) segs0 = Inr (segs, gs, k)"
    and run: "detect (bottomUp_fit_predict eng) cfg thermocline_segmentation_init data sm = Inr st"
  shows "gradients cfg segs = Inr gs
    \<and> length (doubleTRM st) =
        card {i. 1 \<le> i \<and> i + 2 \<le> length gs \<and> \<bar>gs ! i\<bar> < stable_gradient cfg
                 \<and> gs ! (i - 1) > minTRM_gradient cfg \<and> gs ! (i + 1) > stable_gradient cfg}
    \<and> length (positiveSeg st) = card {i. i < length gs \<and> gs ! i < - stable_gradient cfg}
    \<and> set (doubleTRM st) =
        {i. 1 \<le> i \<and> i + 2 \<le> length gs \<and> \<bar>gs ! i\<bar> < stable_gradient cfg
                 \<and> gs ! (i - 1) > minTRM_gradient cfg \<and> gs ! (i + 1) > stable_gradient cfg}
    \<and> set (positiveSeg st) = {i. i < length gs \<and> gs ! i < - stable_gradient cfg}
    \<and> sorted_wrt (<) (doubleTRM st) \<and> sorted_wrt (<) (positiveSeg st)
    \<and> fst (snd (run_segmentation eng cfg data sm feats models)) ''doubleTRM''
        = Some (PyInt (int (length (doubleTRM st))))
    \<and> fst (snd (run_segmentation eng cfg data sm feats models)) ''positiveGradient''
        = Some (PyInt (int (length (positiveSeg st))))"
proof -
  note r = detect_result [where fit = "bottomUp_fit_predict eng", OF fit rn run]
  have d: "{i. 1 \<le> i \<and> i < length gs - 1 \<and> double_flag cfg gs i} =
      {i. 1 \<le> i \<and> i + 2 \<le> length gs \<and> \<bar>gs ! i\<bar> < stable_gradient cfg
                 \<and> gs ! (i - 1) > minTRM_gradient cfg \<and> gs ! (i + 1) > stable_gradient cfg}"
    by (auto simp: double_flag_def)
  have p: "{i. 0 \<le> i \<and> i < length gs \<and> positive_flag cfg gs i} =
      {i. i < length gs \<and> gs ! i < - stable_gradient cfg}"
    by (auto simp: positive_flag_def)
  have "length (doubleTRM st) = card {i. 1 \<le> i \<and> i < length gs - 1 \<and> double_flag cfg gs i}"
    by (simp only: r(2) length_filter_upt_card)
  then have c1: "length (doubleTRM st) =
        card {i. 1 \<le> i \<and> i + 2 \<le> length gs \<and> \<bar>gs ! i\<bar> < stable_gradient cfg
                 \<and> gs ! (i - 1) > minTRM_gradient cfg \<and> gs ! (i + 1) > stable_gradient cfg}"
    by (simp only: d)
  have "length (positiveSeg st) = card {i. 0 \<le> i \<and> i < length gs \<and> positive_flag cfg gs i}"
    by (simp only: r(3) length_filter_upt_card)
  then have c2: "length (positiveSeg st) = card {i. i < length gs \<and> gs ! i < - stable_gradient cfg}"
    by (simp only: p)
  have s1: "set (doubleTRM st) =
        {i. 1 \<le> i \<and> i + 2 \<le> length gs \<and> \<bar>gs ! i\<bar> < stable_gradient cfg
                 \<and> gs ! (i - 1) > minTRM_gradient cfg \<and> gs ! (i + 1) > stable_gradient cfg}"
    unfolding r(2) d [symmetric] by auto
  have s2: "set (positiveSeg st) = {i. i < length gs \<and> gs ! i < - stable_gradient cfg}"
    unfolding r(3) p [symmetric] by auto
  have o: "sorted_wrt (<) (doubleTRM st)" "sorted_wrt (<) (positiveSeg st)"
    unfolding r(2) r(3) by (simp_all add: sorted_wrt_filter)
  have f: "fst (snd (run_segmentation eng cfg data sm feats models)) ''doubleTRM''
        = Some (PyInt (int (length (doubleTRM st))))"
    "fst (snd (run_segmentation eng cfg data sm feats models)) ''positiveGradient''
        = Some (PyInt (int (length (positiveSeg st))))"
    by (simp_all add: run_segmentation_def run Let_def split: sum.splits)
  from removeNoise_Inr(1) [OF rn] c1 c2 s1 s2 o f show ?thesis
    by blast
qed

lemma fit_engines_of:
  "bottomUp_fit_predict (engines_of segs) (max_error cfg) (Temperature data) = Inr segs"
  by (simp add: engines_of_def engine_returning_def)

lemma gradients_segsE: "gradients cfgA segsE = Inr [3, 0, 3, -1]"
  by (simp add: segsE_def cfgA_def eval_defs)

lemma removeNoise_segsE: "removeNoise cfgA (Depth dataE) segsE = Inr (segsE, [3, 0, 3, -1], 0)"
  by (simp add: removeNoise_def gradients_segsE np_argmax_def)
    (simp add: segsE_def dataE_def eval_defs)

lemma locate_segsE:
  "locate cfgA (Depth dataE) segsE [3, 0, 3, -1] 0 s =
     Inr (s\<lparr>TRM := Some 1, LEP := LEP s, UHY := Some 7\<rparr>)"
  by (simp add: locate_def segsE_def cfgA_def dataE_def eval_defs)

lemma rows_dataE: "2 \<le> length (Depth dataE)"
  by (simp add: dataE_def)

lemma detect_segsE:
  "\<exists>st. detect (bottomUp_fit_predict (engines_of segsE)) cfgA thermocline_segmentation_init
           dataE True = Inr st"
  using detect_runs [where fit = "bottomUp_fit_predict (engines_of segsE)",
      OF fit_engines_of removeNoise_segsE rows_dataE locate_segsE]
  by blast

lemma flags_segsE:
  "filter (double_flag cfgA [3, 0, 3, -1]) [1 ..< length [3, 0, 3, -1 :: real] - 1] = [1]"
  "filter (positive_flag cfgA [3, 0, 3, -1]) [0 ..< length [3, 0, 3, -1 :: real]] = [3]"
  by (simp_all add: double_flag_def positive_flag_def cfgA_def upt_conv_Cons)

theorem detect_anomaly_counts_witness:
  "bottomUp_fit_predict (engines_of segsE) (max_error cfgA) (Temperature dataE) = Inr segsE
   \<and> removeNoise cfgA (Depth dataE) segsE = Inr (segsE, [3, 0, 3, -1], 0)
   \<and> (\<exists>st. detect (bottomUp_fit_predict (engines_of segsE)) cfgA thermocline_segmentation_init
              dataE True = Inr st
         \<and> doubleTRM st = [1] \<and> positiveSeg st = [3]
         \<and> fst (snd (run_segmentation (engines_of segsE) cfgA dataE True init_features Map.empty))
              ''doubleTRM'' = Some (PyInt 1)
         \<and> fst (snd (run_segmentation (engines_of segsE) cfgA dataE True init_features Map.empty))
              ''positiveGradient'' = Some (PyInt 1))"
proof -
  from detect_segsE obtain st where
    run: "detect (bottomUp_fit_predict (engines_of segsE)) cfgA thermocline_segmentation_init
            dataE True = Inr st"
    by blast
  note r = detect_result [where fit = "bottomUp_fit_predict (engines_of segsE)",
      OF fit_engines_of removeNoise_segsE run]
  from r(2) r(3) have l: "doubleTRM st = [1]" "positiveSeg st = [3]"
    by (simp_all only: flags_segsE)
  from detect_anomaly_counts [OF fit_engines_of removeNoise_segsE run,
      of init_features Map.empty]
  have "fst (snd (run_segmentation (engines_of segsE) cfgA dataE True init_features Map.empty))
              ''doubleTRM'' = Some (PyInt 1)"
    and "fst (snd (run_segmentation (engines_of segsE) cfgA dataE True init_features Map.empty))
              ''positiveGradient'' = Some (PyInt 1)"
    by (simp_all add: l)
  with run l show ?thesis
    using fit_engines_of removeNoise_segsE by blast
qed

section \<open>The noise guard\<close>

text \<open>
  C6 (as the code has it). Let the gradients of a segment list be \<open>gs0\<close> with the greatest
  at position \<open>k0\<close>. If \<open>k0\<close> is not 0, or the depths of the first segment span 2 or more,
  the guard leaves the list, the gradients and the position as they are. If \<open>k0\<close> is 0,
  the depths of the first segment span less than 2 and another segment remains, the guard
  removes the first segment, and the gradients and the position of the greatest are those of
  the remaining segments. The guard removes at most one segment in one application; what it
  returns are the gradients and the position of their greatest for the list it returns.
\<close>

theorem removeNoise_single_pass:
  assumes g: "gradients cfg segs0 = Inr gs0" and am: "np_argmax gs0 = Inr k0"
  shows "(k0 \<noteq> 0 \<longrightarrow> removeNoise cfg depth segs0 = Inr (segs0, gs0, k0))
    \<and> (k0 = 0 \<and> series_take depth (snd (hd segs0)) = Inr tmp \<and> tmp \<noteq> []
          \<and> \<not> last tmp - hd tmp < 2 \<longrightarrow>
        removeNoise cfg depth segs0 = Inr (segs0, gs0, k0))
    \<and> (k0 = 0 \<and> series_take depth (snd (hd segs0)) = Inr tmp \<and> tmp \<noteq> []
          \<and> last tmp - hd tmp < 2 \<and> tl segs0 \<noteq> [] \<longrightarrow>
        (\<exists>k1. gradients cfg (tl segs0) = Inr (tl gs0) \<and> np_argmax (tl gs0) = Inr k1
           \<and> removeNoise cfg depth segs0 = Inr (tl segs0, tl gs0, k1)))
    \<and> (\<forall>segs gs k. removeNoise cfg depth segs0 = Inr (segs, gs, k) \<longrightarrow>
          (segs = segs0 \<or> segs = tl segs0) \<and> gradients cfg segs = Inr gs
          \<and> np_argmax gs = Inr k)"
proof (intro conjI impI allI)
  assume "k0 \<noteq> 0"
  then show "removeNoise cfg depth segs0 = Inr (segs0, gs0, k0)"
    by (simp add: removeNoise_def g am)
next
  from am have "gs0 \<noteq> []"
    by (rule np_argmax_Inr)
  with gradients_length [OF g] have ne: "segs0 \<noteq> []"
    by auto
  {
    assume a: "k0 = 0 \<and> series_take depth (snd (hd segs0)) = Inr tmp \<and> tmp \<noteq> []
          \<and> \<not> last tmp - hd tmp < 2"
    then show "removeNoise cfg depth segs0 = Inr (segs0, gs0, k0)"
      by (simp add: removeNoise_def g am list_get_0 [OF ne] list_get_0 list_get_m1)
  }
  {
    assume a: "k0 = 0 \<and> series_take depth (snd (hd segs0)) = Inr tmp \<and> tmp \<noteq> []
          \<and> last tmp - hd tmp < 2 \<and> tl segs0 \<noteq> []"
    from gradients_tl [OF g] have gt: "gradients cfg (tl segs0) = Inr (tl gs0)" .
    from a have "tl segs0 \<noteq> []"
      by simp
    with gradients_length [OF gt] have "tl gs0 \<noteq> []"
      by (metis length_0_conv)
    then obtain k1 where k1: "np_argmax (tl gs0) = Inr k1"
      by (simp add: np_argmax_def)
    with a gt have "removeNoise cfg depth segs0 = Inr (tl segs0, tl gs0, k1)"
      by (simp add: removeNoise_def g am list_get_0 [OF ne] list_get_0 list_get_m1)
    with gt k1 show "\<exists>k1. gradients cfg (tl segs0) = Inr (tl gs0) \<and> np_argmax (tl gs0) = Inr k1
           \<and> removeNoise cfg depth segs0 = Inr (tl segs0, tl gs0, k1)"
      by blast
  }
  fix segs gs k
  assume r: "removeNoise cfg depth segs0 = Inr (segs, gs, k)"
  then show "segs = segs0 \<or> segs = tl segs0"
    by (auto simp: removeNoise_def split: sum.splits if_splits)
  from r show "gradients cfg segs = Inr gs" and "np_argmax gs = Inr k"
    by (rule removeNoise_Inr)+
qed

lemma gradients_segsF: "gradients cfgA segsF = Inr [5, 4, 0]"
  by (simp add: segsF_def cfgA_def eval_defs)

lemma argmax_segsF: "np_argmax [5, 4, 0] = Inr 0"
  by (simp add: np_argmax_def)

lemma span_segsF: "series_take (Depth dataF) (snd (hd segsF)) = Inr [0, 1]"
  by (simp add: segsF_def dataF_def series_take_def)

theorem removeNoise_single_pass_witness:
  "gradients cfgA segsF = Inr [5, 4, 0] \<and> np_argmax [5, 4, 0] = Inr 0
   \<and> series_take (Depth dataF) (snd (hd segsF)) = Inr [0, 1]
   \<and> last [0, 1 :: real] - hd [0, 1] < 2 \<and> tl segsF \<noteq> []
   \<and> removeNoise cfgA (Depth dataF) segsF = Inr (tl segsF, [4, 0], 0)"
proof -
  have short: "last [0, 1 :: real] - hd [0, 1] < 2" and rest: "tl segsF \<noteq> []"
    by (simp_all add: segsF_def)
  from removeNoise_single_pass [OF gradients_segsF argmax_segsF, of "Depth dataF" "[0, 1]"]
    span_segsF short rest
  obtain k1 where k1: "np_argmax (tl [5, 4, 0]) = Inr k1"
    and r: "removeNoise cfgA (Depth dataF) segsF = Inr (tl segsF, tl [5, 4, 0], k1)"
    by auto
  from k1 have "k1 = 0"
    by (simp add: np_argmax_def)
  with r have "removeNoise cfgA (Depth dataF) segsF = Inr (tl segsF, [4, 0], 0)"
    by simp
  with gradients_segsF argmax_segsF span_segsF short rest show ?thesis
    by blast
qed

text \<open>
  C6 (as stated) fails in its second half: the guard is not idempotent. After the first
  short segment with the greatest gradient is removed, the next segment can again be short
  and have the greatest gradient of the rest, and a second application removes it too.
\<close>

theorem guard_segments_idempotent_counterexample:
  "guard_segments cfgA (Depth dataF) segsF = Inr (tl segsF)
   \<and> guard_segments cfgA (Depth dataF) (tl segsF) = Inr (tl (tl segsF))
   \<and> tl (tl segsF) \<noteq> tl segsF"
proof -
  have "removeNoise cfgA (Depth dataF) segsF = Inr (tl segsF, [4, 0], 0)"
    by (simp add: removeNoise_def gradients_segsF np_argmax_def)
      (simp add: segsF_def dataF_def cfgA_def eval_defs)
  moreover have "removeNoise cfgA (Depth dataF) (tl segsF) = Inr (tl (tl segsF), [0], 0)"
    by (simp add: removeNoise_def segsF_def dataF_def cfgA_def eval_defs)
  moreover have "tl (tl segsF) \<noteq> tl segsF"
    by (simp add: segsF_def)
  ultimately show ?thesis
    by (simp add: guard_segments_def)
qed

section \<open>The ensemble and its guarded blocks\<close>

lemma run_segmentation_failure:
  "detect (bottomUp_fit_predict eng) cfg thermocline_segmentation_init data sm = Inl e
     \<Longrightarrow> run_segmentation eng cfg data sm feats models = (Some e, feats, models)"
  by (simp add: run_segmentation_def)

lemma run_HMM_failure:
  "thermocline_HMM_detect eng thermocline_base_init data = Inl e
     \<Longrightarrow> run_HMM eng data feats = (Some e, feats)"
  by (simp add: run_HMM_def)

lemma run_threshold_failure:
  "thermocline_threshold_detect eng thermocline_base_init data = Inl e
     \<Longrightarrow> run_threshold eng data feats = (Some e, feats)"
  by (simp add: run_threshold_def)

text \<open>
  A strategy whose detector raises leaves the dictionary as it found it, and the ensemble
  returns what it returns when that strategy is not among the methods.
\<close>

lemma detect_failure_isolated:
  assumes "detect (bottomUp_fit_predict eng) cfg thermocline_segmentation_init data sm = Inl e"
  shows "thermocline_detect eng cfg models data methods sm =
         thermocline_detect eng cfg models data (removeAll ''segmentation'' methods) sm"
  by (simp add: thermocline_detect_def run_segmentation_failure [OF assms])

lemma HMM_failure_isolated:
  assumes "thermocline_HMM_detect eng thermocline_base_init data = Inl e"
  shows "thermocline_detect eng cfg models data methods sm =
         thermocline_detect eng cfg models data (removeAll ''HMM'' methods) sm"
  by (simp add: thermocline_detect_def run_HMM_failure [OF assms] split: prod.splits)

lemma threshold_failure_isolated:
  assumes "thermocline_threshold_detect eng thermocline_base_init data = Inl e"
  shows "thermocline_detect eng cfg models data methods sm =
         thermocline_detect eng cfg models data (removeAll ''threshold'' methods) sm"
  by (simp add: thermocline_detect_def run_threshold_failure [OF assms] split: prod.splits)

lemma run_segmentation_one_gradient:
  assumes fit: "bottomUp_fit_predict eng (max_error cfg) (Temperature data) = Inr segs0"
    and rn: "removeNoise cfg (Depth data) segs0 = Inr (segs, gs, k)"
    and one: "length segs = 1"
    and run: "detect (bottomUp_fit_predict eng) cfg thermocline_segmentation_init data sm = Inr st"
  shows "fst (run_segmentation eng cfg data sm feats models) = Some IndexError
    \<and> fst (snd (run_segmentation eng cfg data sm feats models)) ''lastButTwoSegmentGradient''
        = feats ''lastButTwoSegmentGradient''
    \<and> fst (snd (run_segmentation eng cfg data sm feats models)) ''firstSegmentGradient''
        = Some (PyFloat (gs ! 0))
    \<and> fst (snd (run_segmentation eng cfg data sm feats models)) ''lastSegmentGradient''
        = Some (PyFloat (gs ! 0))
    \<and> snd (snd (run_segmentation eng cfg data sm feats models)) = models"
proof -
  from detect_result(1) [where fit = "bottomUp_fit_predict eng", OF fit rn run]
  have gr: "gradient st = gs" .
  from removeNoise_Inr(1) [OF rn] have "length gs = length segs"
    by (rule gradients_length)
  with one obtain g where gs: "gs = [g]"
    by (cases gs) auto
  show ?thesis
    by (simp add: run_segmentation_def run gr gs Let_def list_get_def)
qed

text \<open>
  C9 (as the code has it). When the noise guard leaves exactly one segment and
  \<^verbatim>\<open>detect\<close> returns, the segmentation block of the ensemble raises \<open>IndexError\<close> at
  \<^verbatim>\<open>model.gradient[-2]\<close>: the key \<^verbatim>\<open>lastButTwoSegmentGradient\<close> is not assigned,
  the keys of the first and the last segment hold the one gradient, the model is not saved,
  and nothing is tried again.
\<close>

theorem run_segmentation_single_segment:
  assumes fit: "bottomUp_fit_predict eng (max_error cfg) (Temperature data) = Inr segs0"
    and rn: "removeNoise cfg (Depth data) segs0 = Inr (segs, gs, k)"
    and one: "length segs = 1"
    and run: "detect (bottomUp_fit_predict eng) cfg thermocline_segmentation_init data sm = Inr st"
  shows "fst (run_segmentation eng cfg data sm feats models) = Some IndexError
    \<and> fst (snd (run_segmentation eng cfg data sm feats models)) ''lastButTwoSegmentGradient''
        = feats ''lastButTwoSegmentGradient''
    \<and> fst (snd (run_segmentation eng cfg data sm feats models)) ''firstSegmentGradient''
        = Some (PyFloat (gs ! 0))
    \<and> fst (snd (run_segmentation eng cfg data sm feats models)) ''lastSegmentGradient''
        = Some (PyFloat (gs ! 0))
    \<and> snd (snd (run_segmentation eng cfg data sm feats models)) = models"
  by (rule run_segmentation_one_gradient [OF fit rn one run])

lemma gradients_segsH: "gradients cfgA segsH = Inr [6]"
  by (simp add: segsH_def cfgA_def eval_defs)

lemma removeNoise_segsH: "removeNoise cfgA (Depth dataH) segsH = Inr (segsH, [6], 0)"
  by (simp add: removeNoise_def gradients_segsH np_argmax_def)
    (simp add: segsH_def dataH_def eval_defs)

lemma locate_segsH:
  "locate cfgA (Depth dataH) segsH [6] 0 s = Inr (s\<lparr>TRM := Some 1, LEP := LEP s, UHY := UHY s\<rparr>)"
  by (simp add: locate_def segsH_def cfgA_def dataH_def eval_defs)

lemma rows_dataH: "2 \<le> length (Depth dataH)"
  by (simp add: dataH_def)

lemma detect_segsH:
  "\<exists>st. detect (bottomUp_fit_predict (engines_of segsH)) cfgA thermocline_segmentation_init
           dataH True = Inr st \<and> TRM st = Some 1"
  using detect_runs [where fit = "bottomUp_fit_predict (engines_of segsH)",
      OF fit_engines_of removeNoise_segsH rows_dataH locate_segsH,
      of thermocline_segmentation_init True]
  by auto

theorem run_segmentation_single_segment_witness:
  "bottomUp_fit_predict (engines_of segsH) (max_error cfgA) (Temperature dataH) = Inr segsH
   \<and> removeNoise cfgA (Depth dataH) segsH = Inr (segsH, [6], 0)
   \<and> length segsH = 1
   \<and> (\<exists>st. detect (bottomUp_fit_predict (engines_of segsH)) cfgA thermocline_segmentation_init
              dataH True = Inr st)
   \<and> fst (run_segmentation (engines_of segsH) cfgA dataH True init_features Map.empty)
       = Some IndexError
   \<and> fst (snd (run_segmentation (engines_of segsH) cfgA dataH True init_features Map.empty))
       ''lastButTwoSegmentGradient'' = None
   \<and> fst (snd (run_segmentation (engines_of segsH) cfgA dataH True init_features Map.empty))
       ''firstSegmentGradient'' = Some (PyFloat 6)"
proof -
  have one: "length segsH = 1"
    by (simp add: segsH_def)
  from detect_segsH obtain st where
    run: "detect (bottomUp_fit_predict (engines_of segsH)) cfgA thermocline_segmentation_init
            dataH True = Inr st"
    by blast
  have absent: "init_features ''lastButTwoSegmentGradient'' = None"
    by (simp add: init_features_def)
  from run_segmentation_single_segment [OF fit_engines_of removeNoise_segsH one run,
      of init_features Map.empty] absent
  have "fst (run_segmentation (engines_of segsH) cfgA dataH True init_features Map.empty)
       = Some IndexError"
    and "fst (snd (run_segmentation (engines_of segsH) cfgA dataH True init_features Map.empty))
       ''lastButTwoSegmentGradient'' = None"
    and "fst (snd (run_segmentation (engines_of segsH) cfgA dataH True init_features Map.empty))
       ''firstSegmentGradient'' = Some (PyFloat 6)"
    by simp_all
  with run one show ?thesis
    using fit_engines_of removeNoise_segsH by blast
qed

text \<open>
  C9 (as stated) fails where the single fitted segment spans less than 2 depth units: the
  guard removes it, \<^verbatim>\<open>np.argmax\<close> of the empty gradient list raises \<open>ValueError\<close>
  inside \<^verbatim>\<open>detect\<close>, and no diagnostic gradient is recorded or read.
\<close>

theorem run_segmentation_short_segment_counterexample:
  "bottomUp_fit_predict (engines_of segsG) (max_error cfgA) (Temperature dataG) = Inr segsG
   \<and> length segsG = 1
   \<and> run_segmentation (engines_of segsG) cfgA dataG True init_features Map.empty
       = (Some ValueError, init_features, Map.empty)
   \<and> init_features ''firstSegmentGradient'' = None"
proof -
  have "removeNoise cfgA (Depth dataG) segsG = Inl ValueError"
    by (simp add: removeNoise_def segsG_def dataG_def cfgA_def eval_defs)
  then have "detect (bottomUp_fit_predict (engines_of segsG)) cfgA thermocline_segmentation_init
      dataG True = Inl ValueError"
    by (simp add: detect_def fit_engines_of) (simp add: dataG_def series_get_def)
  from run_segmentation_failure [OF this]
  have "run_segmentation (engines_of segsG) cfgA dataG True init_features Map.empty
       = (Some ValueError, init_features, Map.empty)" .
  moreover have "length segsG = 1"
    by (simp add: segsG_def)
  moreover have "init_features ''firstSegmentGradient'' = None"
    by (simp add: init_features_def)
  ultimately show ?thesis
    using fit_engines_of by blast
qed

lemma run_segmentation_writes:
  assumes "detect (bottomUp_fit_predict eng) cfg thermocline_segmentation_init data sm = Inr st"
  shows "fst (snd (run_segmentation eng cfg data sm feats models)) ''TRM_segment''
           = Some (float_or_None (TRM st))"
    and "fst (snd (run_segmentation eng cfg data sm feats models)) ''TRM_num_segment''
           = Some (int_or_None (num_segments st))"
    and "fst (snd (run_segmentation eng cfg data sm feats models)) ''TRM_gradient_segment''
           = Some (float_or_None (TRM_gradient st))"
  by (simp_all add: run_segmentation_def assms Let_def split: sum.splits)

lemma thermocline_detect_engines_of:
  "thermocline_detect (engines_of segs) cfg models data [''segmentation'', ''HMM'', ''threshold''] sm
     = snd (run_segmentation (engines_of segs) cfg data sm init_features models)"
  by (simp add: thermocline_detect_def run_HMM_def run_threshold_def thermocline_HMM_detect_def
      thermocline_threshold_detect_def engines_of_def split: prod.splits)

text \<open>
  C8 at a profile fitted by one segment that spans 2 depth units. The segmentation block
  raises \<open>IndexError\<close> and the ensemble returns, but the keys of the segmentation strategy
  that were assigned before the failing statement no longer hold their default \<open>None\<close>.
\<close>

theorem thermocline_detect_partial_record:
  "fst (run_segmentation (engines_of segsH) cfgA dataH True init_features Map.empty)
     = Some IndexError
   \<and> init_features ''TRM_segment'' = Some PyNone
   \<and> init_features ''TRM_num_segment'' = Some PyNone
   \<and> init_features ''TRM_gradient_segment'' = Some PyNone
   \<and> fst (thermocline_detect (engines_of segsH) cfgA Map.empty dataH
            [''segmentation'', ''HMM'', ''threshold''] True) ''TRM_segment'' = Some (PyFloat 1)
   \<and> fst (thermocline_detect (engines_of segsH) cfgA Map.empty dataH
            [''segmentation'', ''HMM'', ''threshold''] True) ''TRM_num_segment'' = Some (PyInt 1)
   \<and> fst (thermocline_detect (engines_of segsH) cfgA Map.empty dataH
            [''segmentation'', ''HMM'', ''threshold''] True) ''TRM_gradient_segment''
       = Some (PyFloat 6)"
proof -
  from detect_segsH obtain st where
    run: "detect (bottomUp_fit_predict (engines_of segsH)) cfgA thermocline_segmentation_init
            dataH True = Inr st"
    and trm: "TRM st = Some 1"
    by blast
  note r = detect_result [where fit = "bottomUp_fit_predict (engines_of segsH)",
      OF fit_engines_of removeNoise_segsH run]
  have one: "length segsH = 1"
    by (simp add: segsH_def)
  from run_segmentation_one_gradient [OF fit_engines_of removeNoise_segsH one run]
  have e: "fst (run_segmentation (engines_of segsH) cfgA dataH True init_features Map.empty)
     = Some IndexError"
    by blast
  have i: "init_features ''TRM_segment'' = Some PyNone"
    "init_features ''TRM_num_segment'' = Some PyNone"
    "init_features ''TRM_gradient_segment'' = Some PyNone"
    by (simp_all add: init_features_def)
  from run_segmentation_writes [OF run, of init_features Map.empty]
  have "fst (thermocline_detect (engines_of segsH) cfgA Map.empty dataH
            [''segmentation'', ''HMM'', ''threshold''] True) ''TRM_segment'' = Some (PyFloat 1)"
    and "fst (thermocline_detect (engines_of segsH) cfgA Map.empty dataH
            [''segmentation'', ''HMM'', ''threshold''] True) ''TRM_num_segment'' = Some (PyInt 1)"
    and "fst (thermocline_detect (engines_of segsH) cfgA Map.empty dataH
            [''segmentation'', ''HMM'', ''threshold''] True) ''TRM_gradient_segment''
       = Some (PyFloat 6)"
    by (simp_all add: thermocline_detect_engines_of trm r(4) r(5) one float_or_None_def
        int_or_None_def)
  with e i show ?thesis
    by blast
qed

end
